theory Spec2Isabelle
  imports Main "HOL-Library.AList"
begin

section \<open>Python strings\<close>

text \<open>
  A Python \<open>str\<close> is a sequence of Unicode code points; \<open>len\<close> counts code points and
  the bullet of the research heuristic (U+2022) lies outside Latin-1. A string is therefore
  modelled as a list of code points. \<open>lit\<close> reads an ASCII literal of the source.
\<close>

type_synonym pystr = "nat list"

definition lit :: "string \<Rightarrow> pystr" where
  "lit s = map of_char s"

text \<open>\<open>str.isspace\<close> for one code point: the code points Python treats as whitespace.\<close>

definition isspace :: "nat \<Rightarrow> bool" where
  "isspace c = (c \<in> set [9, 10, 11, 12, 13, 28, 29, 30, 31, 32, 133, 160, 5760,
                          8232, 8233, 8239, 8287, 12288] \<or> (8192 \<le> c \<and> c \<le> 8202))"

text \<open>\<open>s.strip()\<close>: leading and trailing whitespace removed.\<close>

definition strip :: "pystr \<Rightarrow> pystr" where
  "strip s = rev (dropWhile isspace (rev (dropWhile isspace s)))"

text \<open>
  \<open>s.lower()\<close>. On ASCII it maps \<open>A..Z\<close> to \<open>a..z\<close>. Beyond ASCII the result comes from
  the Unicode case tables, which are not part of the repository: they are the parameter
  \<open>tbl\<close>, which gives the replacement of the code point at position \<open>i\<close> of \<open>s\<close>
  (one code point may lower to several, and the capital sigma depends on its context).
\<close>

type_synonym lower_table = "pystr \<Rightarrow> nat \<Rightarrow> pystr"

definition ascii_lower :: "nat \<Rightarrow> nat" where
  "ascii_lower c = (if 65 \<le> c \<and> c \<le> 90 then c + 32 else c)"

fun lower_from :: "lower_table \<Rightarrow> pystr \<Rightarrow> nat \<Rightarrow> pystr \<Rightarrow> pystr" where
  "lower_from tbl s i [] = []"
| "lower_from tbl s i (c # cs) =
     (if c < 128 then [ascii_lower c] else tbl s i) @ lower_from tbl s (Suc i) cs"

definition lower :: "lower_table \<Rightarrow> pystr \<Rightarrow> pystr" where
  "lower tbl s = lower_from tbl s 0 s"

text \<open>\<open>s.startswith(p)\<close> and the substring test \<open>sub in s\<close>.\<close>

fun startswith :: "pystr \<Rightarrow> pystr \<Rightarrow> bool" where
  "startswith s [] = True"
| "startswith [] (p # ps) = False"
| "startswith (c # cs) (p # ps) = (c = p \<and> startswith cs ps)"

fun contains :: "pystr \<Rightarrow> pystr \<Rightarrow> bool" where
  "contains sub [] = (sub = [])"
| "contains sub (c # cs) = (startswith (c # cs) sub \<or> contains sub cs)"

text \<open>\<open>sep.join(parts)\<close>.\<close>

fun join :: "pystr \<Rightarrow> pystr list \<Rightarrow> pystr" where
  "join sep [] = []"
| "join sep [p] = p"
| "join sep (p # q # ps) = p @ sep @ join sep (q # ps)"

text \<open>\<open>x or ""\<close> for a value that is a string or \<open>None\<close>.\<close>

definition or_empty :: "pystr option \<Rightarrow> pystr" where
  "or_empty x = (case x of None \<Rightarrow> [] | Some s \<Rightarrow> s)"

section \<open>The research heuristic\<close>

text \<open>\<open>_has_research_signal\<close>, nested in \<open>AEOBlogPipeline.run\<close> (blog_workflow.py, 39-74).\<close>

definition failure_markers :: "pystr list" where
  "failure_markers = map lit
     [''cannot proceed'',
      ''research was not provided'',
      ''missing research'',
      ''need the research'',
      ''no research'',
      ''rate limit'',
      ''temporarily unavailable'',
      ''quota'',
      ''i apologize'',
      ''cannot write the blog'',
      ''without the research'',
      ''please provide the research'',
      ''unavailable right now'',
      ''try again later'']"

definition signal_delimiters :: "pystr list" where
  "signal_delimiters =
     [10 # lit ''-'', 10 # lit ''1.'', 10 # lit ''bullet'', [10, 8226], lit ''?'', lit ''. '']"

definition has_research_signal :: "lower_table \<Rightarrow> pystr option \<Rightarrow> bool" where
  "has_research_signal tbl text =
     (let normalized = lower tbl (strip (or_empty text)) in
      if normalized = [] then False
      else if list_ex (\<lambda>marker. contains marker normalized) failure_markers then False
      else if length normalized < 40 then False
      else
        let delimiter_hits = length (filter (\<lambda>delim. contains delim normalized) signal_delimiters)
        in if delimiter_hits = 0 then False else True)"

section \<open>Python values\<close>

text \<open>
  What a JSON body or a parsed literal can hold. \<open>POther\<close> is an object of any other type
  (a float, a tuple, bytes): the model needs its type name, its truthiness and a tag that
  tells two such objects apart.
\<close>

datatype pyval =
    PNone
  | PBool bool
  | PInt int
  | PStr pystr
  | PList "pyval list"
  | PDict "(pystr \<times> pyval) list"
  | POther pystr bool nat

type_synonym pydict = "(pystr \<times> pyval) list"

text \<open>Truthiness: what \<open>if x\<close> and \<open>not x\<close> test.\<close>

fun py_truthy :: "pyval \<Rightarrow> bool" where
  "py_truthy PNone = False"
| "py_truthy (PBool b) = b"
| "py_truthy (PInt i) = (i \<noteq> 0)"
| "py_truthy (PStr s) = (s \<noteq> [])"
| "py_truthy (PList xs) = (xs \<noteq> [])"
| "py_truthy (PDict d) = (d \<noteq> [])"
| "py_truthy (POther ty b tag) = b"

fun type_name :: "pyval \<Rightarrow> pystr" where
  "type_name PNone = lit ''NoneType''"
| "type_name (PBool b) = lit ''bool''"
| "type_name (PInt i) = lit ''int''"
| "type_name (PStr s) = lit ''str''"
| "type_name (PList xs) = lit ''list''"
| "type_name (PDict d) = lit ''dict''"
| "type_name (POther ty b tag) = ty"

section \<open>Outbound calls\<close>

text \<open>
  The pipeline talks to six language-model agents and to a knowledge base. None of them is
  code of the repository, and what they answer is not fixed by it: the environment gives
  the outcome of every outbound call. An agent call either raises (\<open>Inl\<close>, with the
  exception) or returns a response, of which the pipeline reads the
  \<open>content\<close> only (a string or \<open>None\<close>). The answer may depend on how many agent calls
  came before, so that the same prompt can be answered differently the second time.
  The environment also holds what the repository takes from the Python runtime and cannot
  be read off its sources: the text \<open>textwrap.shorten\<close> cuts an over-long snippet to, the
  Unicode lowercasing table, \<open>str(x)\<close> of a list, a dictionary or an object of another
  type, and the parsers \<open>ast.literal_eval\<close> and \<open>json.loads\<close> (\<open>None\<close> when they raise).
\<close>

datatype agent = TopicGenerator | Researcher | Planner | Writer | Optimizer | Finalizer

text \<open>
  Exceptions as values: the classes the sources raise or catch by name, each with its
  message, and \<open>OtherError\<close> for an exception of any other class, with the name of its
  class. An outbound call can raise an exception of any class.
\<close>

datatype exn =
    ValueError pystr
  | AttributeError pystr
  | KeyError pystr
  | RuntimeError pystr
  | OtherError pystr pystr

type_synonym call_log = "(agent \<times> pystr) list"

type_synonym kb_doc = "pystr option"

record env =
  llm :: "nat \<Rightarrow> agent \<Rightarrow> pystr \<Rightarrow> exn + pystr option"
  kb_search :: "pystr \<Rightarrow> exn + kb_doc list option"
  shorten_overflow :: "pystr \<Rightarrow> pystr"
  unicode_lower :: lower_table
  repr_other :: "pyval \<Rightarrow> pystr"
  literal_eval :: "pystr \<Rightarrow> pyval option"
  json_loads :: "pystr \<Rightarrow> pyval option"

text \<open>
  \<open>agent.run(prompt, stream=False)\<close>: the call is appended to the log of agent calls, and
  its outcome is the environment's answer at this position of the log.
\<close>

definition agent_run :: "env \<Rightarrow> agent \<Rightarrow> pystr \<Rightarrow> call_log \<Rightarrow> (exn + pystr option) \<times> call_log" where
  "agent_run env a prompt log = (llm env (length log) a prompt, log @ [(a, prompt)])"

section \<open>Formatting\<close>

definition nl :: pystr where
  "nl = [10]"

definition apostrophe :: pystr where
  "apostrophe = [39]"

text \<open>A value that is a string or \<open>None\<close>, inside an f-string.\<close>

definition fmt :: "pystr option \<Rightarrow> pystr" where
  "fmt x = (case x of None \<Rightarrow> lit ''None'' | Some s \<Rightarrow> s)"

text \<open>Truthiness of a value that is a string or \<open>None\<close>.\<close>

definition truthy :: "pystr option \<Rightarrow> bool" where
  "truthy x = (case x of None \<Rightarrow> False | Some s \<Rightarrow> s \<noteq> [])"

text \<open>A natural number inside an f-string: its decimal digits.\<close>

fun decimal :: "nat \<Rightarrow> pystr" where
  "decimal n = (if n < 10 then [48 + n] else decimal (n div 10) @ [48 + n mod 10])"

declare decimal.simps [simp del]

text \<open>\<open>s.split()\<close>: the maximal runs of non-whitespace.\<close>

fun split_from :: "pystr \<Rightarrow> pystr \<Rightarrow> pystr list" where
  "split_from w [] = (if w = [] then [] else [w])"
| "split_from w (c # cs) =
     (if isspace c then (if w = [] then split_from [] cs else w # split_from [] cs)
      else split_from (w @ [c]) cs)"

definition split :: "pystr \<Rightarrow> pystr list" where
  "split s = split_from [] s"

text \<open>
  \<open>textwrap.shorten(text, width, placeholder="...")\<close> of the standard library: whitespace
  is collapsed, and a text that then fits the width is returned as it is. What a longer text
  is cut down to is the library's business and is left to the environment.
\<close>

definition shorten :: "env \<Rightarrow> pystr \<Rightarrow> nat \<Rightarrow> pystr" where
  "shorten env text width =
     (let collapsed = join (lit '' '') (split (strip text))
      in if length collapsed \<le> width then collapsed else shorten_overflow env collapsed)"

text \<open>\<open>raw.replace("\n", " ")\<close>.\<close>

definition replace_newlines :: "pystr \<Rightarrow> pystr" where
  "replace_newlines raw = map (\<lambda>c. if c = 10 then 32 else c) raw"

section \<open>The fallback research summary\<close>

text \<open>\<open>_structured_fallback_research\<close>, nested in \<open>AEOBlogPipeline.run\<close> (blog_workflow.py, 76-102).\<close>

definition static_sections :: "pystr \<Rightarrow> pystr list" where
  "static_sections subject =
     [lit ''**Market Snapshot**'' @ nl @ lit ''- '' @ subject
        @ lit '' is top-of-mind for CMOs focused on profitable growth in 2026.'' @ nl
        @ lit ''- Economic pressure pushes teams to prove clear ROI within two quarters.'',
      lit ''**Adoption & Investment**'' @ nl
        @ lit ''- Budgets are shifting toward AI copilots, experimentation platforms, and privacy-safe data foundations that accelerate ''
        @ subject @ lit ''.'' @ nl
        @ lit ''- Leaders fund pilots that shorten campaign launch cycles and unlock measurement at every touchpoint.'',
      lit ''**Audience Pain Points**'' @ nl
        @ lit ''- Teams struggle with fragmented data, content bottlenecks, and channel saturation.'' @ nl
        @ lit ''- Decision makers want faster validation, governance guardrails, and proof that ''
        @ subject @ lit '' drives incremental revenue.'',
      lit ''**People-Also-Ask Style Questions**'' @ nl
        @ lit ''- How does '' @ subject @ lit '' change day-to-day marketing workflows?'' @ nl
        @ lit ''- What KPIs prove success within 90 days?'' @ nl
        @ lit ''- How can smaller teams adopt '' @ subject @ lit '' without enterprise budgets?'',
      lit ''**Opportunities & Next Steps**'' @ nl
        @ lit ''- Pair experimentation frameworks with AI summarization to ship insights weekly.'' @ nl
        @ lit ''- Reuse knowledge bases to keep messaging on-brand while scaling ''
        @ subject @ lit '' programs.'' @ nl
        @ lit ''- Align sales, product, and marketing data so every touchpoint reinforces the same answer.'']"

text \<open>
  The loop over the search results. \<open>idx\<close> counts every document from 1, also the ones
  skipped; a document without content, or with blank content, adds no line.
\<close>

fun kb_insights :: "env \<Rightarrow> nat \<Rightarrow> kb_doc list \<Rightarrow> pystr list" where
  "kb_insights env idx [] = []"
| "kb_insights env idx (doc # docs) =
     (let raw = or_empty doc in
      if strip raw = [] then kb_insights env (Suc idx) docs
      else
        (let snippet = shorten env (strip (replace_newlines raw)) 280
         in (lit ''- KB Insight '' @ decimal idx @ lit '': '' @ snippet)
              # kb_insights env (Suc idx) docs))"

text \<open>
  The \<open>try\<close> block: an exception of the knowledge base leaves \<open>kb_lines\<close> empty, and
  \<open>kb_results or []\<close> reads a \<open>None\<close> result as the empty list.
\<close>

definition kb_lines :: "env \<Rightarrow> pystr \<Rightarrow> pystr list" where
  "kb_lines env subject =
     (case kb_search env subject of
        Inl kb_exc \<Rightarrow> []
      | Inr kb_results \<Rightarrow>
          kb_insights env 1 (case kb_results of None \<Rightarrow> [] | Some docs \<Rightarrow> docs))"

definition structured_fallback_research :: "env \<Rightarrow> pystr \<Rightarrow> pystr" where
  "structured_fallback_research env subject =
     (let sections =
            (if kb_lines env subject \<noteq> []
             then static_sections subject
                    @ [lit ''**Knowledge Base Highlights**'' @ nl @ join nl (kb_lines env subject)]
             else static_sections subject)
      in join (nl @ nl) sections)"

text \<open>
  The five-section template on its own, written out as one string: what the fallback is
  compared with.
\<close>

definition five_section_template :: "pystr \<Rightarrow> pystr" where
  "five_section_template subject =
     lit ''**Market Snapshot**'' @ nl
     @ lit ''- '' @ subject @ lit '' is top-of-mind for CMOs focused on profitable growth in 2026.'' @ nl
     @ lit ''- Economic pressure pushes teams to prove clear ROI within two quarters.''
     @ nl @ nl
     @ lit ''**Adoption & Investment**'' @ nl
     @ lit ''- Budgets are shifting toward AI copilots, experimentation platforms, and privacy-safe data foundations that accelerate ''
     @ subject @ lit ''.'' @ nl
     @ lit ''- Leaders fund pilots that shorten campaign launch cycles and unlock measurement at every touchpoint.''
     @ nl @ nl
     @ lit ''**Audience Pain Points**'' @ nl
     @ lit ''- Teams struggle with fragmented data, content bottlenecks, and channel saturation.'' @ nl
     @ lit ''- Decision makers want faster validation, governance guardrails, and proof that ''
     @ subject @ lit '' drives incremental revenue.''
     @ nl @ nl
     @ lit ''**People-Also-Ask Style Questions**'' @ nl
     @ lit ''- How does '' @ subject @ lit '' change day-to-day marketing workflows?'' @ nl
     @ lit ''- What KPIs prove success within 90 days?'' @ nl
     @ lit ''- How can smaller teams adopt '' @ subject @ lit '' without enterprise budgets?''
     @ nl @ nl
     @ lit ''**Opportunities & Next Steps**'' @ nl
     @ lit ''- Pair experimentation frameworks with AI summarization to ship insights weekly.'' @ nl
     @ lit ''- Reuse knowledge bases to keep messaging on-brand while scaling ''
     @ subject @ lit '' programs.'' @ nl
     @ lit ''- Align sales, product, and marketing data so every touchpoint reinforces the same answer.''"

section \<open>The blog pipeline\<close>

text \<open>The prompts of \<open>AEOBlogPipeline.run\<close> (blog_workflow.py, 16-195), one per agent call.\<close>

definition topic_prompt :: "pystr \<Rightarrow> pystr" where
  "topic_prompt prompt = lit ''Generate a blog topic for: '' @ prompt"

definition research_prompt :: "pystr \<Rightarrow> pystr" where
  "research_prompt topic =
     lit ''Research key facts, statistics, and user questions about: '' @ topic"

definition fallback_prompt :: "pystr \<Rightarrow> pystr" where
  "fallback_prompt topic =
     lit ''Provide a concise research summary for '' @ apostrophe @ topic @ apostrophe @ lit ''. ''
     @ lit ''List at least five bullet points covering statistics, audience pain points, ''
     @ lit ''and common user questions.''"

definition plan_prompt :: "pystr \<Rightarrow> pystr \<Rightarrow> pystr" where
  "plan_prompt topic research_summary =
     lit ''Topic: '' @ apostrophe @ topic @ apostrophe @ nl @ nl @ lit ''Research:'' @ nl
     @ research_summary"

definition write_prompt :: "pystr \<Rightarrow> pystr option \<Rightarrow> pystr \<Rightarrow> pystr" where
  "write_prompt topic plan research_summary =
     lit ''Write the blog for '' @ apostrophe @ topic @ apostrophe @ lit '' using this outline:''
     @ nl @ nl @ fmt plan @ nl @ nl @ lit ''Research:'' @ nl @ research_summary"

definition optimize_prompt :: "pystr option \<Rightarrow> pystr" where
  "optimize_prompt draft = lit ''Draft:'' @ nl @ fmt draft"

definition finalize_prompt :: "pystr option \<Rightarrow> pystr option \<Rightarrow> pystr" where
  "finalize_prompt draft optimization_report =
     lit ''Draft:'' @ nl @ fmt draft @ nl @ nl @ lit ''Optimization Suggestions:'' @ nl
     @ fmt optimization_report @ nl @ nl @ lit ''Produce the Final Blog Post.''"

text \<open>
  Stage 1, research (lines 104-123): the researcher is called; an answer without research
  signal is retried once with the fallback prompt, an exception of the retry being caught;
  a summary that still has no signal is replaced by the structured fallback. The first
  call stands outside every \<open>try\<close>.
\<close>

definition research_stage :: "env \<Rightarrow> pystr \<Rightarrow> call_log \<Rightarrow> (exn + pystr) \<times> call_log" where
  "research_stage env topic log =
     (case agent_run env Researcher (research_prompt topic) log of
        (Inl exc, log1) \<Rightarrow> (Inl exc, log1)
      | (Inr content, log1) \<Rightarrow>
          (let research_summary = strip (or_empty content);
               (research_summary, log2) =
                 (if \<not> has_research_signal (unicode_lower env) (Some research_summary) then
                    (case agent_run env Researcher (fallback_prompt topic) log1 of
                       (Inr fallback_content, log2) \<Rightarrow> (strip (or_empty fallback_content), log2)
                     | (Inl retry_exc, log2) \<Rightarrow> (research_summary, log2))
                  else (research_summary, log1));
               research_summary =
                 (if \<not> has_research_signal (unicode_lower env) (Some research_summary)
                  then structured_fallback_research env topic
                  else research_summary)
           in (Inr research_summary, log2)))"

text \<open>
  Stages 1 to 5 on a topic (lines 104-195). The token accounting after stage 5 stands in a
  \<open>try\<close> that catches every exception and changes nothing that is returned; it is left out.
\<close>

definition run_stages :: "env \<Rightarrow> pystr \<Rightarrow> call_log \<Rightarrow> (exn + pystr option) \<times> call_log" where
  "run_stages env topic log =
     (case research_stage env topic log of
        (Inl exc, log1) \<Rightarrow> (Inl exc, log1)
      | (Inr research_summary, log1) \<Rightarrow>
     (case agent_run env Planner (plan_prompt topic research_summary) log1 of
        (Inl exc, log2) \<Rightarrow> (Inl exc, log2)
      | (Inr plan, log2) \<Rightarrow>
     (case agent_run env Writer (write_prompt topic plan research_summary) log2 of
        (Inl exc, log3) \<Rightarrow> (Inl exc, log3)
      | (Inr draft, log3) \<Rightarrow>
     (case agent_run env Optimizer (optimize_prompt draft) log3 of
        (Inl exc, log4) \<Rightarrow> (Inl exc, log4)
      | (Inr optimization_report, log4) \<Rightarrow>
     (case agent_run env Finalizer (finalize_prompt draft optimization_report) log4 of
        (Inl exc, log5) \<Rightarrow> (Inl exc, log5)
      | (Inr final_content, log5) \<Rightarrow> (Inr final_content, log5))))))"

definition missing_topic_and_prompt :: exn where
  "missing_topic_and_prompt =
     ValueError (lit ''Either '' @ apostrophe @ lit ''topic'' @ apostrophe @ lit '' or ''
                 @ apostrophe @ lit ''prompt'' @ apostrophe @ lit '' must be provided.'')"

definition none_has_no_strip :: exn where
  "none_has_no_strip =
     AttributeError (apostrophe @ lit ''NoneType'' @ apostrophe @ lit '' object has no attribute ''
                     @ apostrophe @ lit ''strip'' @ apostrophe)"

text \<open>
  \<open>AEOBlogPipeline.run(topic, prompt)\<close>: the guard, the topic generation when only a prompt
  is given (\<open>topic_gen_response.content.strip()\<close> raises on a response without content),
  then the five stages.
\<close>

definition run :: "env \<Rightarrow> pystr option \<Rightarrow> pystr option \<Rightarrow> call_log \<Rightarrow> (exn + pystr option) \<times> call_log" where
  "run env topic prompt log =
     (if \<not> truthy topic \<and> \<not> truthy prompt then (Inl missing_topic_and_prompt, log)
      else if truthy prompt \<and> \<not> truthy topic then
        (case agent_run env TopicGenerator (topic_prompt (or_empty prompt)) log of
           (Inl exc, log0) \<Rightarrow> (Inl exc, log0)
         | (Inr None, log0) \<Rightarrow> (Inl none_has_no_strip, log0)
         | (Inr (Some content), log0) \<Rightarrow> run_stages env (strip content) log0)
      else run_stages env (or_empty topic) log)"

text \<open>\<open>AEOBlogPipeline.generate_topic_only(prompt)\<close> (lines 197-201).\<close>

definition generate_topic_only :: "env \<Rightarrow> pystr \<Rightarrow> call_log \<Rightarrow> (exn + pystr) \<times> call_log" where
  "generate_topic_only env prompt log =
     (case agent_run env TopicGenerator (topic_prompt prompt) log of
        (Inl exc, log0) \<Rightarrow> (Inl exc, log0)
      | (Inr None, log0) \<Rightarrow> (Inl none_has_no_strip, log0)
      | (Inr (Some content), log0) \<Rightarrow> (Inr (strip content), log0))"

text \<open>
  The five stages as the claims describe them, to be compared with \<open>run_stages\<close>: one
  decision over the outcomes of the agent calls in the order research, plan, write, optimize,
  finalize, with every prompt spelled out from the outputs before it. A call that raises
  ends the run with its exception; only the exception of the research retry is dropped.
\<close>

definition five_stages :: "env \<Rightarrow> pystr \<Rightarrow> call_log \<Rightarrow> (exn + pystr option) \<times> call_log" where
  "five_stages env t log =
     (let research_call =
            (Researcher, lit ''Research key facts, statistics, and user questions about: '' @ t);
          retry_call =
            (Researcher,
             lit ''Provide a concise research summary for '' @ [39] @ t @ [39]
             @ lit ''. List at least five bullet points covering statistics, audience pain points, and common user questions.'')
      in
      case llm env (length log) Researcher (snd research_call) of
        Inl e \<Rightarrow> (Inl e, log @ [research_call])
      | Inr answer \<Rightarrow>
     (let first = strip (or_empty answer);
          retried = (\<not> has_research_signal (unicode_lower env) (Some first));
          summary =
            (if \<not> retried then first
             else
               (case llm env (length log + 1) Researcher (snd retry_call) of
                  Inl e \<Rightarrow> structured_fallback_research env t
                | Inr again \<Rightarrow>
                    if has_research_signal (unicode_lower env) (Some (strip (or_empty again)))
                    then strip (or_empty again)
                    else structured_fallback_research env t));
          log1 = log @ (if retried then [research_call, retry_call] else [research_call]);
          plan_call =
            (Planner, lit ''Topic: '' @ [39] @ t @ [39, 10, 10] @ lit ''Research:'' @ [10] @ summary)
      in
      case llm env (length log1) Planner (snd plan_call) of
        Inl e \<Rightarrow> (Inl e, log1 @ [plan_call])
      | Inr plan \<Rightarrow>
     (let write_call =
            (Writer,
             lit ''Write the blog for '' @ [39] @ t @ [39] @ lit '' using this outline:''
             @ [10, 10] @ fmt plan @ [10, 10] @ lit ''Research:'' @ [10] @ summary)
      in
      case llm env (length log1 + 1) Writer (snd write_call) of
        Inl e \<Rightarrow> (Inl e, log1 @ [plan_call, write_call])
      | Inr draft \<Rightarrow>
     (let optimize_call = (Optimizer, lit ''Draft:'' @ [10] @ fmt draft)
      in
      case llm env (length log1 + 2) Optimizer (snd optimize_call) of
        Inl e \<Rightarrow> (Inl e, log1 @ [plan_call, write_call, optimize_call])
      | Inr report \<Rightarrow>
     (let finalize_call =
            (Finalizer,
             lit ''Draft:'' @ [10] @ fmt draft @ [10, 10] @ lit ''Optimization Suggestions:''
             @ [10] @ fmt report @ [10, 10] @ lit ''Produce the Final Blog Post.'')
      in
      case llm env (length log1 + 3) Finalizer (snd finalize_call) of
        Inl e \<Rightarrow> (Inl e, log1 @ [plan_call, write_call, optimize_call, finalize_call])
      | Inr final \<Rightarrow>
          (Inr final, log1 @ [plan_call, write_call, optimize_call, finalize_call]))))))"

section \<open>Example environments\<close>

text \<open>
  Concrete environments for the examples. None of the examples reaches the cut of an
  over-long snippet; beyond ASCII the lowercasing table leaves a code point as it is.
\<close>

definition research_text :: pystr where
  "research_text = lit ''- 60% of searches end without a click. Why?''"

definition steady_llm :: "nat \<Rightarrow> agent \<Rightarrow> pystr \<Rightarrow> exn + pystr option" where
  "steady_llm i a p =
     Inr (Some (case a of
        TopicGenerator \<Rightarrow> lit '' Answer engines ''
      | Researcher \<Rightarrow> research_text
      | Planner \<Rightarrow> lit ''Outline''
      | Writer \<Rightarrow> lit ''Draft text''
      | Optimizer \<Rightarrow> lit ''Report''
      | Finalizer \<Rightarrow> lit ''Final post''))"

definition steady_env :: env where
  "steady_env =
     \<lparr>llm = steady_llm,
      kb_search = (\<lambda>subject. Inr (Some [])),
      shorten_overflow = (\<lambda>s. take 277 s @ lit ''...''),
      unicode_lower = (\<lambda>s i. [s ! i]),
      repr_other = (\<lambda>v. lit ''<object>''),
      literal_eval = (\<lambda>s. None),
      json_loads = (\<lambda>s. None)\<rparr>"

text \<open>The same, with one document in the knowledge base.\<close>

definition kb_env :: env where
  "kb_env = steady_env\<lparr>kb_search := (\<lambda>subject. Inr (Some [Some (lit ''x'')]))\<rparr>"

text \<open>The provider is out of quota when the planner is called.\<close>

definition planner_down_env :: env where
  "planner_down_env =
     steady_env\<lparr>llm := (\<lambda>i a p. if a = Planner then Inl (RuntimeError (lit ''quota exceeded''))
                                 else steady_llm i a p)\<rparr>"

text \<open>The provider is out of quota from the first call on.\<close>

definition provider_down_env :: env where
  "provider_down_env = steady_env\<lparr>llm := (\<lambda>i a p. Inl (RuntimeError (lit ''quota exceeded'')))\<rparr>"

text \<open>The provider rejects every request with a \<open>ValueError\<close>.\<close>

definition value_error_env :: env where
  "value_error_env = steady_env\<lparr>llm := (\<lambda>i a p. Inl (ValueError (lit ''bad request'')))\<rparr>"

text \<open>The researcher apologises, and its retry raises.\<close>

definition apology_env :: env where
  "apology_env =
     steady_env\<lparr>llm := (\<lambda>i a p. if a = Researcher
                                  then (if i = 0 then Inr (Some (lit ''I apologize.''))
                                        else Inl (RuntimeError (lit ''quota exceeded'')))
                                  else steady_llm i a p)\<rparr>"

section \<open>Dictionaries, attributes and messages\<close>

text \<open>\<open>d.get(k)\<close>, \<open>d.get(k, default)\<close> and \<open>d[k]\<close> on a dictionary with string keys.\<close>

definition dict_get :: "pydict \<Rightarrow> pystr \<Rightarrow> pyval" where
  "dict_get d k = (case map_of d k of None \<Rightarrow> PNone | Some v \<Rightarrow> v)"

definition dict_get_default :: "pydict \<Rightarrow> pystr \<Rightarrow> pyval \<Rightarrow> pyval" where
  "dict_get_default d k dflt = (case map_of d k of None \<Rightarrow> dflt | Some v \<Rightarrow> v)"

definition dict_item :: "pydict \<Rightarrow> pystr \<Rightarrow> exn + pyval" where
  "dict_item d k = (case map_of d k of None \<Rightarrow> Inl (KeyError k) | Some v \<Rightarrow> Inr v)"

text \<open>The message of the \<open>AttributeError\<close> for a missing attribute.\<close>

definition no_attribute :: "pyval \<Rightarrow> string \<Rightarrow> exn" where
  "no_attribute v attr =
     AttributeError (apostrophe @ type_name v @ apostrophe @ lit '' object has no attribute ''
                     @ apostrophe @ lit attr @ apostrophe)"

text \<open>\<open>x.strip()\<close> on a value of any type: only a string has the method.\<close>

definition py_strip :: "pyval \<Rightarrow> exn + pystr" where
  "py_strip v = (case v of PStr s \<Rightarrow> Inr (strip s) | _ \<Rightarrow> Inl (no_attribute v ''strip''))"

text \<open>\<open>str(x)\<close>, which is also how an f-string renders \<open>x\<close>.\<close>

definition int_str :: "int \<Rightarrow> pystr" where
  "int_str i = (if i < 0 then 45 # decimal (nat (- i)) else decimal (nat i))"

definition py_str :: "env \<Rightarrow> pyval \<Rightarrow> pystr" where
  "py_str env v =
     (case v of
        PNone \<Rightarrow> lit ''None''
      | PBool b \<Rightarrow> (if b then lit ''True'' else lit ''False'')
      | PInt i \<Rightarrow> int_str i
      | PStr s \<Rightarrow> s
      | _ \<Rightarrow> repr_other env v)"

text \<open>\<open>str(e)\<close> of an exception: its message; a \<open>KeyError\<close> shows the key quoted.\<close>

fun exn_str :: "exn \<Rightarrow> pystr" where
  "exn_str (ValueError msg) = msg"
| "exn_str (AttributeError msg) = msg"
| "exn_str (KeyError k) = apostrophe @ k @ apostrophe"
| "exn_str (RuntimeError msg) = msg"
| "exn_str (OtherError cls msg) = msg"

text \<open>\<open>s.endswith(p)\<close>.\<close>

definition endswith :: "pystr \<Rightarrow> pystr \<Rightarrow> bool" where
  "endswith s p = startswith (rev s) (rev p)"

section \<open>The database session\<close>

text \<open>
  \<open>get_session\<close> (database/session.py, 31-41). A store holds what the database has
  committed; a session opened on it works on a copy, which \<open>commit\<close> writes back and
  \<open>rollback\<close> throws away. The calls made on the session are recorded. The block under
  \<open>with\<close> is a function of the session's data that returns a value or raises. The
  exceptions are those of class \<open>Exception\<close>; \<open>commit\<close>, \<open>rollback\<close> and \<open>close\<close>
  themselves do not raise in this model.
\<close>

datatype session_op = Commit | Rollback | Close

record 's store =
  committed :: 's
  ops :: "session_op list"

record 's session =
  origin :: "'s store"
  pending :: 's

definition session_local :: "'s store \<Rightarrow> 's session" where
  "session_local st = \<lparr>origin = st, pending = committed st\<rparr>"

definition commit :: "'s session \<Rightarrow> 's session" where
  "commit se =
     se\<lparr>origin := (origin se)\<lparr>committed := pending se, ops := ops (origin se) @ [Commit]\<rparr>\<rparr>"

definition rollback :: "'s session \<Rightarrow> 's session" where
  "rollback se =
     se\<lparr>origin := (origin se)\<lparr>ops := ops (origin se) @ [Rollback]\<rparr>,
        pending := committed (origin se)\<rparr>"

definition close :: "'s session \<Rightarrow> 's store" where
  "close se = (origin se)\<lparr>ops := ops (origin se) @ [Close]\<rparr>"

definition get_session :: "('s \<Rightarrow> (exn + 'a) \<times> 's) \<Rightarrow> 's store \<Rightarrow> (exn + 'a) \<times> 's store" where
  "get_session block st =
     (let session = session_local st;
          (outcome, data) = block (pending session);
          session = session\<lparr>pending := data\<rparr>
      in case outcome of
           Inr v \<Rightarrow> (Inr v, close (commit session))
         | Inl exc \<Rightarrow> (Inl exc, close (rollback session)))"

section \<open>The blog table and the database package\<close>

text \<open>
  A row of the blog table, with the columns the sources read or write by name; the other
  columns are kept as a dictionary.
\<close>

record blog =
  blog_id :: int
  blog_user_id :: pystr
  blog_company_url :: pystr
  blog_email_id :: pyval
  blog_brand_name :: pyval
  blog_topic :: pyval
  blog_status :: pystr
  blog_columns :: pydict

text \<open>The keyword arguments of \<open>_get_or_create_blog\<close> and \<open>create_blog_entry\<close>.\<close>

record entry_args =
  arg_user_id :: pystr
  arg_company_url :: pystr
  arg_topic :: pystr
  arg_email_id :: pyval
  arg_brand_name :: pyval
  arg_is_prompt :: pyval
  arg_timestamp :: pyval

text \<open>
  The optional keyword arguments of \<open>update_blog_status\<close>: the blog content, the topic,
  \<open>is_prompt\<close> and the timestamp.
\<close>

type_synonym completion = "pystr option \<times> pystr \<times> pyval \<times> pyval"

text \<open>
  The functions of the package \<open>aeo_blog_engine.database\<close> that the services call. The
  package's modules other than session.py are not among the sources, so each function is a
  parameter: it reads the session's rows and returns its result with the rows as it leaves
  them. \<open>ensure_entries\<close>, \<open>entry_contents\<close> and \<open>make_entry\<close> are the static methods of
  \<open>Blog\<close>, \<open>to_dict\<close> its method.
\<close>

record database =
  get_blog_by_user_and_company :: "blog list \<Rightarrow> pystr \<Rightarrow> pystr \<Rightarrow> blog option"
  create_blog_entry :: "blog list \<Rightarrow> entry_args \<Rightarrow> pystr \<Rightarrow> blog \<times> blog list"
  update_blog_status :: "blog list \<Rightarrow> int \<Rightarrow> pystr \<Rightarrow> completion option \<Rightarrow> blog option \<times> blog list"
  append_social_post :: "blog list \<Rightarrow> blog \<Rightarrow> pystr \<Rightarrow> pystr \<Rightarrow> pystr \<Rightarrow> pyval \<Rightarrow> blog \<times> blog list"
  to_dict :: "blog \<Rightarrow> pydict"
  ensure_entries :: "pyval \<Rightarrow> pyval list"
  entry_contents :: "pyval list \<Rightarrow> pyval list"
  make_entry :: "pystr \<Rightarrow> pyval \<Rightarrow> pyval \<Rightarrow> pyval"

text \<open>
  \<open>session.add(blog); session.flush()\<close> for a row that was loaded in this session: the
  row with its primary key is written with the object's attributes.
\<close>

definition add_and_flush :: "blog list \<Rightarrow> blog \<Rightarrow> blog list" where
  "add_and_flush rows blog = map (\<lambda>row. if blog_id row = blog_id blog then blog else row) rows"

section \<open>The services\<close>

text \<open>\<open>_get_or_create_blog\<close> (services.py, 19-49).\<close>

definition get_or_create_blog :: "database \<Rightarrow> blog list \<Rightarrow> entry_args \<Rightarrow> blog \<times> blog list" where
  "get_or_create_blog db session a =
     (case get_blog_by_user_and_company db session (arg_user_id a) (arg_company_url a) of
        Some blog \<Rightarrow>
          (let blog = (if py_truthy (arg_email_id a) \<and> \<not> py_truthy (blog_email_id blog)
                       then blog\<lparr>blog_email_id := arg_email_id a\<rparr> else blog);
               blog = (if py_truthy (arg_brand_name a) \<and> \<not> py_truthy (blog_brand_name blog)
                       then blog\<lparr>blog_brand_name := arg_brand_name a\<rparr> else blog);
               topics = ensure_entries db (blog_topic blog);
               contents = entry_contents db topics;
               blog = (if arg_topic a \<noteq> [] \<and> PStr (arg_topic a) \<notin> set contents
                       then blog\<lparr>blog_topic :=
                              PList (topics @ [make_entry db (arg_topic a) (arg_is_prompt a)
                                                 (arg_timestamp a)])\<rparr>
                       else blog)
           in (blog, add_and_flush session blog))
      | None \<Rightarrow> create_blog_entry db session a (lit ''PENDING''))"

text \<open>
  The state the services work on: the blog table with its sessions, and the log of agent
  calls.
\<close>

record world =
  table :: "blog list store"
  calls :: call_log

definition missing_topic_or_prompt :: exn where
  "missing_topic_or_prompt =
     ValueError (lit ''Missing required field: '' @ apostrophe @ lit ''topic'' @ apostrophe
                 @ lit '' or '' @ apostrophe @ lit ''prompt'' @ apostrophe)"

definition missing_required :: "string \<Rightarrow> exn" where
  "missing_required field =
     ValueError (lit ''Missing required field: '' @ apostrophe @ lit field @ apostrophe)"

definition topic_not_generated :: exn where
  "topic_not_generated =
     ValueError (lit ''Topic is missing or could not be generated from prompt.'')"

text \<open>
  \<open>_process_single_blog\<close>, lines 53-76: the payload is read into the arguments of the
  database calls; the topic is generated first when only a prompt is given.
\<close>

definition read_payload :: "env \<Rightarrow> pydict \<Rightarrow> call_log \<Rightarrow> (exn + entry_args) \<times> call_log" where
  "read_payload env payload log =
     (let topic = dict_get payload (lit ''topic'');
          prompt = dict_get payload (lit ''prompt'')
      in
      if \<not> py_truthy topic \<and> \<not> py_truthy prompt then (Inl missing_topic_or_prompt, log)
      else
        (case (if py_truthy prompt \<and> \<not> py_truthy topic
               then (case generate_topic_only env (py_str env prompt) log of
                       (Inl exc, log0) \<Rightarrow> (Inl exc, log0)
                     | (Inr generated, log0) \<Rightarrow> (Inr (PStr generated), log0))
               else (Inr topic, log)) of
           (Inl exc, log0) \<Rightarrow> (Inl exc, log0)
         | (Inr topic, log0) \<Rightarrow>
             if \<not> py_truthy topic \<or> strip (py_str env topic) = []
             then (Inl topic_not_generated, log0)
             else
        (case py_strip topic of
           Inl exc \<Rightarrow> (Inl exc, log0)
         | Inr topic \<Rightarrow>
        (case dict_item payload (lit ''company_url'') of
           Inl exc \<Rightarrow> (Inl exc, log0)
         | Inr raw_company_url \<Rightarrow>
        (case py_strip raw_company_url of
           Inl exc \<Rightarrow> (Inl exc, log0)
         | Inr company_url \<Rightarrow>
        (case dict_item payload (lit ''user_id'') of
           Inl exc \<Rightarrow> (Inl exc, log0)
         | Inr raw_user_id \<Rightarrow>
        (case py_strip raw_user_id of
           Inl exc \<Rightarrow> (Inl exc, log0)
         | Inr user_id \<Rightarrow>
             (Inr \<lparr>arg_user_id = user_id,
                   arg_company_url = company_url,
                   arg_topic = topic,
                   arg_email_id = dict_get payload (lit ''email_id''),
                   arg_brand_name = dict_get payload (lit ''brand_name''),
                   arg_is_prompt =
                     (if py_truthy prompt then PStr (lit ''true'')
                      else dict_get_default payload (lit ''is_prompt'') (PStr (lit ''false''))),
                   arg_timestamp = dict_get payload (lit ''timestamp'')\<rparr>,
              log0))))))))"

text \<open>
  The \<open>except\<close> block of \<open>_process_single_blog\<close> (lines 106-113): the record is marked
  \<open>FAILED\<close> in a session of its own and the exception is raised again.
\<close>

definition mark_failed :: "database \<Rightarrow> int \<Rightarrow> exn \<Rightarrow> world \<Rightarrow> (exn + pydict) \<times> world" where
  "mark_failed db bid exc w =
     (case get_session
             (\<lambda>session. (Inr (), snd (update_blog_status db session bid (lit ''FAILED'') None)))
             (table w) of
        (Inl session_exc, table1) \<Rightarrow> (Inl session_exc, w\<lparr>table := table1\<rparr>)
      | (Inr u, table1) \<Rightarrow> (Inl exc, w\<lparr>table := table1\<rparr>))"

text \<open>
  The first \<open>with\<close> block of \<open>_process_single_blog\<close> (lines 78-89): the record is
  fetched or created, and its id is kept.
\<close>

definition first_session :: "database \<Rightarrow> entry_args \<Rightarrow> blog list store \<Rightarrow> (exn + int) \<times> blog list store" where
  "first_session db a st =
     get_session
       (\<lambda>session. case get_or_create_blog db session a of
                     (blog_entry, session1) \<Rightarrow> (Inr (blog_id blog_entry), session1))
       st"

text \<open>
  \<open>_process_single_blog\<close>, lines 78-113: the record is fetched or created in a first
  session; the pipeline runs on the topic; its content is stored with status \<open>COMPLETED\<close>
  in a second session, whose block returns the dictionary of the updated record
  (\<open>updated.to_dict()\<close> raises when the update found no record). Every exception of the
  \<open>try\<close> block goes through \<open>mark_failed\<close>.
\<close>

definition store_and_run :: "env \<Rightarrow> database \<Rightarrow> entry_args \<Rightarrow> world \<Rightarrow> (exn + pydict) \<times> world" where
  "store_and_run env db a w =
     (case first_session db a (table w) of
        (Inl exc, table1) \<Rightarrow> (Inl exc, w\<lparr>table := table1\<rparr>)
      | (Inr bid, table1) \<Rightarrow>
          (case run env (Some (arg_topic a)) None (calls w) of
             (Inl exc, log1) \<Rightarrow> mark_failed db bid exc \<lparr>table = table1, calls = log1\<rparr>
           | (Inr blog_content, log1) \<Rightarrow>
               (case get_session
                       (\<lambda>session.
                          case update_blog_status db session bid (lit ''COMPLETED'')
                                 (Some (blog_content, arg_topic a, arg_is_prompt a, arg_timestamp a)) of
                            (None, session1) \<Rightarrow> (Inl (no_attribute PNone ''to_dict''), session1)
                          | (Some updated, session1) \<Rightarrow> (Inr (to_dict db updated), session1))
                       table1 of
                  (Inl exc, table2) \<Rightarrow> mark_failed db bid exc \<lparr>table = table2, calls = log1\<rparr>
                | (Inr result, table2) \<Rightarrow> (Inr result, \<lparr>table = table2, calls = log1\<rparr>))))"

text \<open>\<open>_process_single_blog\<close> (services.py, 52-113).\<close>

definition process_single_blog :: "env \<Rightarrow> database \<Rightarrow> pydict \<Rightarrow> world \<Rightarrow> (exn + pydict) \<times> world" where
  "process_single_blog env db payload w =
     (case read_payload env payload (calls w) of
        (Inl exc, log0) \<Rightarrow> (Inl exc, w\<lparr>calls := log0\<rparr>)
      | (Inr a, log0) \<Rightarrow> store_and_run env db a (w\<lparr>calls := log0\<rparr>))"

text \<open>
  The attempt of \<open>generate_and_store_blog\<close> to read a string prompt as a list (lines
  128-145): the prompt that the rest of the function works with.
\<close>

definition is_list :: "pyval \<Rightarrow> bool" where
  "is_list v = (case v of PList xs \<Rightarrow> True | _ \<Rightarrow> False)"

definition parse_prompt :: "env \<Rightarrow> pyval \<Rightarrow> pyval" where
  "parse_prompt env prompt =
     (case prompt of
        PStr s \<Rightarrow>
          if startswith (strip s) (lit ''['') \<and> endswith (strip s) (lit '']'') then
            (case literal_eval env s of
               Some parsed \<Rightarrow> if is_list parsed then parsed else prompt
             | None \<Rightarrow>
                 (case json_loads env s of
                    Some parsed \<Rightarrow> if is_list parsed then parsed else prompt
                  | None \<Rightarrow> prompt))
          else prompt
      | _ \<Rightarrow> prompt)"

text \<open>The payload of one prompt of the list (lines 151-155) and the result of a failed one (line 159).\<close>

definition sub_payload :: "pydict \<Rightarrow> pyval \<Rightarrow> pydict" where
  "sub_payload payload p = AList.delete (lit ''topic'') (AList.update (lit ''prompt'') p payload)"

definition failed_item :: "pyval \<Rightarrow> exn \<Rightarrow> pyval" where
  "failed_item p e =
     PDict [(lit ''prompt'', p), (lit ''error'', PStr (exn_str e)), (lit ''status'', PStr (lit ''FAILED''))]"

text \<open>The loop over the prompts (lines 148-160).\<close>

fun process_prompts :: "env \<Rightarrow> database \<Rightarrow> pydict \<Rightarrow> pyval list \<Rightarrow> world \<Rightarrow> pyval list \<times> world" where
  "process_prompts env db payload [] w = ([], w)"
| "process_prompts env db payload (p # ps) w =
     (case process_single_blog env db (sub_payload payload p) w of
        (outcome, w1) \<Rightarrow>
          (case process_prompts env db payload ps w1 of
             (results, w2) \<Rightarrow>
               ((case outcome of Inr d \<Rightarrow> PDict d | Inl e \<Rightarrow> failed_item p e) # results, w2)))"

text \<open>\<open>generate_and_store_blog\<close> (services.py, 116-162).\<close>

definition generate_and_store_blog :: "env \<Rightarrow> database \<Rightarrow> pydict \<Rightarrow> world \<Rightarrow> (exn + pyval) \<times> world" where
  "generate_and_store_blog env db payload w =
     (if \<not> py_truthy (dict_get payload (lit ''company_url''))
      then (Inl (missing_required ''company_url''), w)
      else if \<not> py_truthy (dict_get payload (lit ''user_id''))
      then (Inl (missing_required ''user_id''), w)
      else
        (case parse_prompt env (dict_get payload (lit ''prompt'')) of
           PList prompts \<Rightarrow>
             (case process_prompts env db payload prompts w of
                (results, w1) \<Rightarrow> (Inr (PList results), w1))
         | _ \<Rightarrow>
             (case process_single_blog env db payload w of
                (Inl exc, w1) \<Rightarrow> (Inl exc, w1)
              | (Inr d, w1) \<Rightarrow> (Inr (PDict d), w1))))"

text \<open>\<open>fetch_blog_by_user\<close> (services.py, 173-178).\<close>

definition fetch_blog_by_user :: "database \<Rightarrow> pystr \<Rightarrow> pystr \<Rightarrow> blog list store \<Rightarrow> (exn + pydict option) \<times> blog list store" where
  "fetch_blog_by_user db user_id company_url st =
     get_session
       (\<lambda>session. case get_blog_by_user_and_company db session user_id company_url of
                     None \<Rightarrow> (Inr None, session)
                   | Some blog \<Rightarrow> (Inr (Some (to_dict db blog)), session))
       st"


section \<open>The latest-blog endpoints\<close>

text \<open>
  The three \<open>GET\<close> handlers of api.py (38-84). A request is its query parameters; a
  response is a JSON body with a status code (\<open>jsonify(x)\<close> alone answers 200).
\<close>

type_synonym response = "pyval \<times> nat"

definition error_body :: "string \<Rightarrow> pyval" where
  "error_body msg = PDict [(lit ''error'', PStr (lit msg))]"

text \<open>The part the three handlers share word for word: the two checks and the lookup.\<close>

definition latest_blog :: "(pydict \<Rightarrow> pyval) \<Rightarrow> database \<Rightarrow> (pystr \<rightharpoonup> pystr) \<Rightarrow> blog list store \<Rightarrow> (exn + response) \<times> blog list store" where
  "latest_blog body db args st =
     (let user_id = args (lit ''user_id'');
          company_url = args (lit ''company_url'')
      in
      if \<not> truthy user_id \<or> \<not> truthy company_url
      then (Inr (error_body ''Missing user_id or company_url parameters'', 400), st)
      else
        (case fetch_blog_by_user db (or_empty user_id) (or_empty company_url) st of
           (Inl exc, st1) \<Rightarrow> (Inl exc, st1)
         | (Inr blog, st1) \<Rightarrow>
             (case blog of
                None \<Rightarrow> (Inr (error_body ''Blog not found'', 404), st1)
              | Some d \<Rightarrow>
                  if d = [] then (Inr (error_body ''Blog not found'', 404), st1)
                  else (Inr (body d, 200), st1))))"

definition get_latest_blog_full :: "database \<Rightarrow> (pystr \<rightharpoonup> pystr) \<Rightarrow> blog list store \<Rightarrow> (exn + response) \<times> blog list store" where
  "get_latest_blog_full = latest_blog (\<lambda>blog. PDict blog)"

definition get_latest_blog_topic :: "database \<Rightarrow> (pystr \<rightharpoonup> pystr) \<Rightarrow> blog list store \<Rightarrow> (exn + response) \<times> blog list store" where
  "get_latest_blog_topic =
     latest_blog (\<lambda>blog. PDict [(lit ''topic'', dict_get_default blog (lit ''topic'') (PList []))])"

definition get_latest_blog_social :: "database \<Rightarrow> (pystr \<rightharpoonup> pystr) \<Rightarrow> blog list store \<Rightarrow> (exn + response) \<times> blog list store" where
  "get_latest_blog_social =
     latest_blog (\<lambda>blog. PDict
       [(lit ''twitter_post'', dict_get_default blog (lit ''twitter_post'') (PList [])),
        (lit ''linkedin_post'', dict_get_default blog (lit ''linkedin_post'') (PList [])),
        (lit ''reddit_post'', dict_get_default blog (lit ''reddit_post'') (PList []))])"



section \<open>An in-memory database package\<close>

text \<open>
  Modelled from the spec: the modules of \<open>aeo_blog_engine.database\<close> that define \<open>Blog\<close>,
  \<open>get_blog_by_user_and_company\<close>, \<open>create_blog_entry\<close>, \<open>update_blog_status\<close> and
  \<open>append_social_post\<close> are missing from the sources. The spec calls the layer a standard
  ORM CRUD wrapper over a relational store; this is such a wrapper over the list of rows, with
  an entry kept as a dictionary of its content, \<open>is_prompt\<close> and timestamp. It serves as the
  instance of the parameters in the examples; the theorems hold for every instance.
\<close>

definition memory_make_entry :: "pystr \<Rightarrow> pyval \<Rightarrow> pyval \<Rightarrow> pyval" where
  "memory_make_entry content is_prompt timestamp =
     PDict [(lit ''content'', PStr content), (lit ''is_prompt'', is_prompt),
            (lit ''timestamp'', timestamp)]"

definition memory_ensure_entries :: "pyval \<Rightarrow> pyval list" where
  "memory_ensure_entries v = (case v of PList es \<Rightarrow> es | _ \<Rightarrow> [])"

definition memory_entry_contents :: "pyval list \<Rightarrow> pyval list" where
  "memory_entry_contents es =
     map (\<lambda>e. case e of PDict d \<Rightarrow> dict_get d (lit ''content'') | _ \<Rightarrow> e) es"

definition memory_lookup :: "blog list \<Rightarrow> pystr \<Rightarrow> pystr \<Rightarrow> blog option" where
  "memory_lookup rows user_id company_url =
     find (\<lambda>b. blog_user_id b = user_id \<and> blog_company_url b = company_url) rows"

definition memory_create :: "blog list \<Rightarrow> entry_args \<Rightarrow> pystr \<Rightarrow> blog \<times> blog list" where
  "memory_create rows a status =
     (let b = \<lparr>blog_id = int (length rows) + 1,
               blog_user_id = arg_user_id a,
               blog_company_url = arg_company_url a,
               blog_email_id = arg_email_id a,
               blog_brand_name = arg_brand_name a,
               blog_topic = PList [memory_make_entry (arg_topic a) (arg_is_prompt a) (arg_timestamp a)],
               blog_status = status,
               blog_columns = []\<rparr>
      in (b, rows @ [b]))"

definition memory_update :: "blog list \<Rightarrow> int \<Rightarrow> pystr \<Rightarrow> completion option \<Rightarrow> blog option \<times> blog list" where
  "memory_update rows bid status completion =
     (case find (\<lambda>b. blog_id b = bid) rows of
        None \<Rightarrow> (None, rows)
      | Some b \<Rightarrow>
          (let b1 = b\<lparr>blog_status := status\<rparr>;
               b2 = (case completion of
                       None \<Rightarrow> b1
                     | Some (content, topic, is_prompt, timestamp) \<Rightarrow>
                         b1\<lparr>blog_columns :=
                              AList.update (lit ''blog'')
                                (case content of None \<Rightarrow> PNone | Some c \<Rightarrow> PStr c)
                                (blog_columns b1)\<rparr>)
           in (Some b2, add_and_flush rows b2)))"

definition memory_append_social :: "blog list \<Rightarrow> blog \<Rightarrow> pystr \<Rightarrow> pystr \<Rightarrow> pystr \<Rightarrow> pyval \<Rightarrow> blog \<times> blog list" where
  "memory_append_social rows b platform content topic timestamp =
     (let key = platform @ lit ''_post'';
          posts = memory_ensure_entries (dict_get (blog_columns b) key);
          b1 = b\<lparr>blog_columns :=
                    AList.update key
                      (PList (posts @ [memory_make_entry content (PStr (lit ''false'')) timestamp]))
                      (blog_columns b)\<rparr>
      in (b1, add_and_flush rows b1))"

definition memory_to_dict :: "blog \<Rightarrow> pydict" where
  "memory_to_dict b =
     [(lit ''id'', PInt (blog_id b)),
      (lit ''user_id'', PStr (blog_user_id b)),
      (lit ''company_url'', PStr (blog_company_url b)),
      (lit ''email_id'', blog_email_id b),
      (lit ''brand_name'', blog_brand_name b),
      (lit ''topic'', blog_topic b),
      (lit ''status'', PStr (blog_status b))] @ blog_columns b"

definition memory_db :: database where
  "memory_db =
     \<lparr>get_blog_by_user_and_company = memory_lookup,
      create_blog_entry = memory_create,
      update_blog_status = memory_update,
      append_social_post = memory_append_social,
      to_dict = memory_to_dict,
      ensure_entries = memory_ensure_entries,
      entry_contents = memory_entry_contents,
      make_entry = memory_make_entry\<rparr>"



definition empty_world :: world where
  "empty_world = \<lparr>table = \<lparr>committed = [], ops = []\<rparr>, calls = []\<rparr>"

text \<open>The row of an earlier, completed generation for the same user and company.\<close>

definition done_blog :: blog where
  "done_blog =
     \<lparr>blog_id = 1, blog_user_id = lit ''u1'', blog_company_url = lit ''acme.example'',
      blog_email_id = PNone, blog_brand_name = PNone,
      blog_topic = PList [memory_make_entry (lit ''SEO'') (PStr (lit ''false'')) PNone],
      blog_status = lit ''COMPLETED'',
      blog_columns = [(lit ''blog'', PStr (lit ''Old post''))]\<rparr>"


text \<open>A request with a list of two prompts, and a topic that the loop drops.\<close>

definition list_payload :: pydict where
  "list_payload =
     [(lit ''prompt'', PList [PStr (lit ''seo''), PInt 0]),
      (lit ''topic'', PStr (lit ''AI'')),
      (lit ''company_url'', PStr (lit ''acme.example'')),
      (lit ''user_id'', PStr (lit ''u1''))]"

text \<open>The query parameters of three requests, and a table with one record.\<close>

definition known_args :: "pystr \<rightharpoonup> pystr" where
  "known_args = [lit ''user_id'' \<mapsto> lit ''u1'', lit ''company_url'' \<mapsto> lit ''acme.example'']"

definition unknown_args :: "pystr \<rightharpoonup> pystr" where
  "unknown_args = [lit ''user_id'' \<mapsto> lit ''u2'', lit ''company_url'' \<mapsto> lit ''acme.example'']"

definition partial_args :: "pystr \<rightharpoonup> pystr" where
  "partial_args = [lit ''user_id'' \<mapsto> lit ''u1'']"

definition done_store :: "blog list store" where
  "done_store = \<lparr>committed = [done_blog], ops = []\<rparr>"

text \<open>A request with a list of one prompt and no \<open>company_url\<close>.\<close>

definition bare_list_payload :: pydict where
  "bare_list_payload =
     [(lit ''prompt'', PList [PStr (lit ''seo'')]),
      (lit ''user_id'', PStr (lit ''u1''))]"



section \<open>Verified properties\<close>

subsection \<open>Substrings and whitespace\<close>







subsection \<open>The research heuristic is string matching\<close>




subsection \<open>The fallback research summary\<close>

lemma join_snoc: "xs \<noteq> [] \<Longrightarrow> join sep (xs @ [x]) = join sep xs @ sep @ x"
  by (induction sep xs rule: join.induct) auto

lemma static_sections_nonempty: "static_sections subject \<noteq> []"
  by (simp add: static_sections_def)

lemma join_static_sections:
  "join (nl @ nl) (static_sections subject) = five_section_template subject"
  by (simp add: static_sections_def five_section_template_def)

lemma structured_fallback_research_eq:
  "structured_fallback_research env subject =
     five_section_template subject
     @ (if kb_lines env subject = [] then []
        else nl @ nl @ lit ''**Knowledge Base Highlights**'' @ nl @ join nl (kb_lines env subject))"
  by (simp add: structured_fallback_research_def join_snoc static_sections_nonempty
      join_static_sections)

lemma kb_insights_empty:
  "kb_insights env idx docs = [] \<longleftrightarrow> (\<forall>d\<in>set docs. strip (or_empty d) = [])"
  by (induction docs arbitrary: idx) (auto simp: Let_def)

lemma kb_lines_empty:
  "kb_lines env subject = [] \<longleftrightarrow>
     (case kb_search env subject of
        Inl kb_exc \<Rightarrow> True
      | Inr None \<Rightarrow> True
      | Inr (Some docs) \<Rightarrow> \<forall>d\<in>set docs. strip (or_empty d) = [])"
  by (auto simp: kb_lines_def kb_insights_empty split: sum.splits option.splits)

lemma kb_lines_kb_env: "kb_lines kb_env subject = [lit ''- KB Insight 1: x'']"
  by (simp add: kb_lines_def kb_env_def steady_env_def or_empty_def strip_def isspace_def lit_def
      shorten_def replace_newlines_def split_def decimal.simps)

text \<open>
  Claim C3, as amended. The fallback research text is the fixed five-section template
  instantiated with the subject, followed, when the knowledge-base search for the subject
  returns at least one document with non-blank content, by a sixth section
  \<open>**Knowledge Base Highlights**\<close> with one line per such document. When the search raises,
  returns nothing or returns blank documents only, it is the five-section template exactly.
\<close>

theorem structured_fallback_research_template:
  "structured_fallback_research env subject =
     five_section_template subject
     @ (if kb_lines env subject = [] then []
        else nl @ nl @ lit ''**Knowledge Base Highlights**'' @ nl @ join nl (kb_lines env subject))
   \<and> (kb_lines env subject = [] \<longleftrightarrow>
        (case kb_search env subject of
           Inl kb_exc \<Rightarrow> True
         | Inr None \<Rightarrow> True
         | Inr (Some docs) \<Rightarrow> \<forall>d\<in>set docs. strip (or_empty d) = []))"
  using structured_fallback_research_eq kb_lines_empty by blast

theorem structured_fallback_research_template_witness:
  "structured_fallback_research steady_env (lit ''AI'') = five_section_template (lit ''AI'')
   \<and> structured_fallback_research kb_env (lit ''AI'') =
       five_section_template (lit ''AI'') @ nl @ nl @ lit ''**Knowledge Base Highlights**''
       @ nl @ lit ''- KB Insight 1: x''"
proof -
  have "kb_lines steady_env (lit ''AI'') = []"
    by (simp add: kb_lines_def steady_env_def)
  then show ?thesis
    using structured_fallback_research_template [of steady_env "lit ''AI''"]
      structured_fallback_research_template [of kb_env "lit ''AI''"]
    by (simp add: kb_lines_kb_env)
qed

text \<open>
  The claim as stated fails: with one document in the knowledge base the fallback is not the
  five-section template, and it differs from the fallback for the same subject with an empty
  knowledge base.
\<close>

theorem structured_fallback_research_kb_counterexample:
  "structured_fallback_research kb_env (lit ''AI'') \<noteq> five_section_template (lit ''AI'')
   \<and> structured_fallback_research kb_env (lit ''AI'')
       \<noteq> structured_fallback_research steady_env (lit ''AI'')"
proof -
  have "kb_lines steady_env (lit ''AI'') = []"
    by (simp add: kb_lines_def steady_env_def)
  then show ?thesis
    by (simp add: structured_fallback_research_eq kb_lines_kb_env nl_def)
qed

subsection \<open>The research stage\<close>

lemma research_stage_unfold:
  "research_stage env topic log =
     (case llm env (length log) Researcher (research_prompt topic) of
        Inl e \<Rightarrow> (Inl e, log @ [(Researcher, research_prompt topic)])
      | Inr content \<Rightarrow>
          if has_research_signal (unicode_lower env) (Some (strip (or_empty content)))
          then (Inr (strip (or_empty content)), log @ [(Researcher, research_prompt topic)])
          else
            (Inr (case llm env (Suc (length log)) Researcher (fallback_prompt topic) of
                    Inl e \<Rightarrow> structured_fallback_research env topic
                  | Inr retry \<Rightarrow>
                      if has_research_signal (unicode_lower env) (Some (strip (or_empty retry)))
                      then strip (or_empty retry)
                      else structured_fallback_research env topic),
             log @ [(Researcher, research_prompt topic), (Researcher, fallback_prompt topic)]))"
  by (auto simp: research_stage_def agent_run_def Let_def split: sum.splits)

lemma run_stages_after_research:
  "research_stage env topic log = (Inr summary, log1) \<Longrightarrow>
   \<exists>rest. snd (run_stages env topic log) = log1 @ (Planner, plan_prompt topic summary) # rest"
  by (auto simp: run_stages_def agent_run_def split: sum.splits prod.splits)

lemma run_stages_first_raises:
  "llm env (length log) Researcher (research_prompt topic) = Inl e \<Longrightarrow>
   run_stages env topic log = (Inl e, log @ [(Researcher, research_prompt topic)])"
  by (simp add: run_stages_def research_stage_unfold)

lemma run_with_topic: "truthy topic \<Longrightarrow> run env topic prompt log = run_stages env (or_empty topic) log"
  by (simp add: run_def)

lemma research_prompt_text:
  "research_prompt topic = lit ''Research key facts, statistics, and user questions about: '' @ topic"
  by (simp add: research_prompt_def)

lemma fallback_prompt_text:
  "fallback_prompt topic =
     lit ''Provide a concise research summary for '' @ [39] @ topic @ [39]
     @ lit ''. List at least five bullet points covering statistics, audience pain points, and common user questions.''"
  by (simp add: fallback_prompt_def apostrophe_def lit_def)

subsection \<open>The five stages\<close>

lemma plan_prompt_text:
  "plan_prompt t summary =
     lit ''Topic: '' @ [39] @ t @ [39, 10, 10] @ lit ''Research:'' @ [10] @ summary"
  by (simp add: plan_prompt_def nl_def apostrophe_def)

lemma write_prompt_text:
  "write_prompt t plan summary =
     lit ''Write the blog for '' @ [39] @ t @ [39] @ lit '' using this outline:''
     @ [10, 10] @ fmt plan @ [10, 10] @ lit ''Research:'' @ [10] @ summary"
  by (simp add: write_prompt_def nl_def apostrophe_def)

lemma optimize_prompt_text:
  "optimize_prompt draft = lit ''Draft:'' @ [10] @ fmt draft"
  by (simp add: optimize_prompt_def nl_def)

lemma finalize_prompt_text:
  "finalize_prompt draft report =
     lit ''Draft:'' @ [10] @ fmt draft @ [10, 10] @ lit ''Optimization Suggestions:''
     @ [10] @ fmt report @ [10, 10] @ lit ''Produce the Final Blog Post.''"
  by (simp add: finalize_prompt_def nl_def)


lemma stages_after_research:
  "research_stage env t log = (Inr summary, log1) \<Longrightarrow>
   run_stages env t log =
     (case llm env (length log1) Planner (plan_prompt t summary) of
        Inl e \<Rightarrow> (Inl e, log1 @ [(Planner, plan_prompt t summary)])
      | Inr plan \<Rightarrow>
     (case llm env (length log1 + 1) Writer (write_prompt t plan summary) of
        Inl e \<Rightarrow> (Inl e, log1 @ [(Planner, plan_prompt t summary),
                                  (Writer, write_prompt t plan summary)])
      | Inr draft \<Rightarrow>
     (case llm env (length log1 + 2) Optimizer (optimize_prompt draft) of
        Inl e \<Rightarrow> (Inl e, log1 @ [(Planner, plan_prompt t summary),
                                  (Writer, write_prompt t plan summary),
                                  (Optimizer, optimize_prompt draft)])
      | Inr report \<Rightarrow>
     (case llm env (length log1 + 3) Finalizer (finalize_prompt draft report) of
        Inl e \<Rightarrow> (Inl e, log1 @ [(Planner, plan_prompt t summary),
                                  (Writer, write_prompt t plan summary),
                                  (Optimizer, optimize_prompt draft),
                                  (Finalizer, finalize_prompt draft report)])
      | Inr final \<Rightarrow> (Inr final, log1 @ [(Planner, plan_prompt t summary),
                                          (Writer, write_prompt t plan summary),
                                          (Optimizer, optimize_prompt draft),
                                          (Finalizer, finalize_prompt draft report)])))))"
  by (simp add: run_stages_def agent_run_def eval_nat_numeral split: sum.splits)


lemma run_stages_five_stages: "run_stages env t log = five_stages env t log"
proof (cases "llm env (length log) Researcher (research_prompt t)")
  case (Inl e)
  have "five_stages env t log = (Inl e, log @ [(Researcher, research_prompt t)])"
    using Inl by (simp add: five_stages_def Let_def research_prompt_text)
  then show ?thesis
    by (simp only: run_stages_first_raises [OF Inl])
next
  case (Inr answer)
  show ?thesis
  proof (cases "has_research_signal (unicode_lower env) (Some (strip (or_empty answer)))")
    case True
    have rs: "research_stage env t log =
                (Inr (strip (or_empty answer)), log @ [(Researcher, research_prompt t)])"
      using Inr True by (simp add: research_stage_unfold)
    show ?thesis
      unfolding stages_after_research [OF rs]
      using Inr True
      by (simp add: five_stages_def Let_def research_prompt_text plan_prompt_text
          write_prompt_text optimize_prompt_text finalize_prompt_text cong: sum.case_cong)
  next
    case False
    define summary where "summary =
       (case llm env (Suc (length log)) Researcher (fallback_prompt t) of
          Inl e \<Rightarrow> structured_fallback_research env t
        | Inr retry \<Rightarrow>
            if has_research_signal (unicode_lower env) (Some (strip (or_empty retry)))
            then strip (or_empty retry)
            else structured_fallback_research env t)"
    have rs: "research_stage env t log =
                (Inr summary,
                 log @ [(Researcher, research_prompt t), (Researcher, fallback_prompt t)])"
      using Inr False by (simp add: research_stage_unfold summary_def)
    have fs: "five_stages env t log =
      (case llm env (length log + 2) Planner (plan_prompt t summary) of
        Inl e \<Rightarrow> (Inl e, log @ [(Researcher, research_prompt t), (Researcher, fallback_prompt t),
                                 (Planner, plan_prompt t summary)])
      | Inr plan \<Rightarrow>
     (case llm env (length log + 3) Writer (write_prompt t plan summary) of
        Inl e \<Rightarrow> (Inl e, log @ [(Researcher, research_prompt t), (Researcher, fallback_prompt t),
                                  (Planner, plan_prompt t summary),
                                  (Writer, write_prompt t plan summary)])
      | Inr draft \<Rightarrow>
     (case llm env (length log + 4) Optimizer (optimize_prompt draft) of
        Inl e \<Rightarrow> (Inl e, log @ [(Researcher, research_prompt t), (Researcher, fallback_prompt t),
                                  (Planner, plan_prompt t summary),
                                  (Writer, write_prompt t plan summary),
                                  (Optimizer, optimize_prompt draft)])
      | Inr report \<Rightarrow>
     (case llm env (length log + 5) Finalizer (finalize_prompt draft report) of
        Inl e \<Rightarrow> (Inl e, log @ [(Researcher, research_prompt t), (Researcher, fallback_prompt t),
                                  (Planner, plan_prompt t summary),
                                  (Writer, write_prompt t plan summary),
                                  (Optimizer, optimize_prompt draft),
                                  (Finalizer, finalize_prompt draft report)])
      | Inr final \<Rightarrow> (Inr final, log @ [(Researcher, research_prompt t), (Researcher, fallback_prompt t),
                                  (Planner, plan_prompt t summary),
                                  (Writer, write_prompt t plan summary),
                                  (Optimizer, optimize_prompt draft),
                                  (Finalizer, finalize_prompt draft report)])))))"
      unfolding summary_def plan_prompt_text write_prompt_text optimize_prompt_text
        finalize_prompt_text fallback_prompt_text research_prompt_text
      using Inr [unfolded research_prompt_text] False
      by (simp add: five_stages_def Let_def eval_nat_numeral cong: sum.case_cong)
    show ?thesis
      unfolding stages_after_research [OF rs] fs
      by (simp add: eval_nat_numeral cong: sum.case_cong)
  qed
qed


lemma research_prompt_neq_fallback: "research_prompt t \<noteq> fallback_prompt t"
  by (simp add: research_prompt_def fallback_prompt_def lit_def)

lemma research_stage_shape:
  "research_stage env t log = (r, log1) \<Longrightarrow>
   log1 = log @ [(Researcher, research_prompt t)] \<or>
   log1 = log @ [(Researcher, research_prompt t), (Researcher, fallback_prompt t)]"
  by (auto simp: research_stage_unfold split: sum.splits if_splits)

lemma research_stage_raises:
  "research_stage env t log = (Inl e, log1) \<Longrightarrow>
   llm env (length log) Researcher (research_prompt t) = Inl e \<and>
   log1 = log @ [(Researcher, research_prompt t)]"
  by (auto simp: research_stage_unfold split: sum.splits if_splits)

lemma run_stages_returns:
  assumes "run_stages env t log = (Inr v, log')"
  shows "\<exists>calls summary plan draft report.
           research_stage env t log = (Inr summary, log @ calls) \<and>
           (calls = [(Researcher, research_prompt t)] \<or>
            calls = [(Researcher, research_prompt t), (Researcher, fallback_prompt t)]) \<and>
           llm env (length (log @ calls)) Planner (plan_prompt t summary) = Inr plan \<and>
           llm env (length (log @ calls) + 1) Writer (write_prompt t plan summary) = Inr draft \<and>
           llm env (length (log @ calls) + 2) Optimizer (optimize_prompt draft) = Inr report \<and>
           llm env (length (log @ calls) + 3) Finalizer (finalize_prompt draft report) = Inr v \<and>
           log' = log @ calls @ [(Planner, plan_prompt t summary),
                                 (Writer, write_prompt t plan summary),
                                 (Optimizer, optimize_prompt draft),
                                 (Finalizer, finalize_prompt draft report)]"
proof -
  obtain r log1 where r: "research_stage env t log = (r, log1)"
    by (cases "research_stage env t log") auto
  from research_stage_shape [OF r] obtain calls where
    calls: "log1 = log @ calls"
      "calls = [(Researcher, research_prompt t)] \<or>
       calls = [(Researcher, research_prompt t), (Researcher, fallback_prompt t)]"
    by auto
  from assms r obtain summary where s: "r = Inr summary"
    by (cases r) (auto simp: run_stages_def)
  have rs: "research_stage env t log = (Inr summary, log @ calls)"
    using r s calls(1) by simp
  from assms show ?thesis
    unfolding stages_after_research [OF rs]
    using rs calls(2) by (auto split: sum.splits)
qed

lemma run_stages_raises:
  assumes "run_stages env t log = (Inl e, log')"
  shows
    "(llm env (length log) Researcher (research_prompt t) = Inl e \<and>
      log' = log @ [(Researcher, research_prompt t)])
     \<or> (\<exists>summary calls.
          research_stage env t log = (Inr summary, log @ calls) \<and>
          (calls = [(Researcher, research_prompt t)] \<or>
           calls = [(Researcher, research_prompt t), (Researcher, fallback_prompt t)]) \<and>
          ((llm env (length (log @ calls)) Planner (plan_prompt t summary) = Inl e \<and>
            log' = log @ calls @ [(Planner, plan_prompt t summary)])
           \<or> (\<exists>plan.
                llm env (length (log @ calls)) Planner (plan_prompt t summary) = Inr plan \<and>
                ((llm env (length (log @ calls) + 1) Writer (write_prompt t plan summary) = Inl e \<and>
                  log' = log @ calls @ [(Planner, plan_prompt t summary),
                                        (Writer, write_prompt t plan summary)])
                 \<or> (\<exists>draft.
                      llm env (length (log @ calls) + 1) Writer (write_prompt t plan summary)
                        = Inr draft \<and>
                      ((llm env (length (log @ calls) + 2) Optimizer (optimize_prompt draft) = Inl e \<and>
                        log' = log @ calls @ [(Planner, plan_prompt t summary),
                                              (Writer, write_prompt t plan summary),
                                              (Optimizer, optimize_prompt draft)])
                       \<or> (\<exists>report.
                            llm env (length (log @ calls) + 2) Optimizer (optimize_prompt draft)
                              = Inr report \<and>
                            llm env (length (log @ calls) + 3) Finalizer
                              (finalize_prompt draft report) = Inl e \<and>
                            log' = log @ calls @ [(Planner, plan_prompt t summary),
                                                  (Writer, write_prompt t plan summary),
                                                  (Optimizer, optimize_prompt draft),
                                                  (Finalizer, finalize_prompt draft report)])))))))"
proof -
  obtain r log1 where r: "research_stage env t log = (r, log1)"
    by (cases "research_stage env t log") auto
  show ?thesis
  proof (cases r)
    case (Inl e')
    with r assms have "e' = e" "log' = log1"
      by (simp_all add: run_stages_def)
    with research_stage_raises [of env t log e' log1] r Inl show ?thesis
      by simp
  next
    case (Inr summary)
    from research_stage_shape [OF r] obtain calls where
      calls: "log1 = log @ calls"
        "calls = [(Researcher, research_prompt t)] \<or>
         calls = [(Researcher, research_prompt t), (Researcher, fallback_prompt t)]"
      by auto
    have rs: "research_stage env t log = (Inr summary, log @ calls)"
      using r Inr calls(1) by simp
    from assms have
      "(llm env (length (log @ calls)) Planner (plan_prompt t summary) = Inl e \<and>
            log' = log @ calls @ [(Planner, plan_prompt t summary)])
           \<or> (\<exists>plan.
                llm env (length (log @ calls)) Planner (plan_prompt t summary) = Inr plan \<and>
                ((llm env (length (log @ calls) + 1) Writer (write_prompt t plan summary) = Inl e \<and>
                  log' = log @ calls @ [(Planner, plan_prompt t summary),
                                        (Writer, write_prompt t plan summary)])
                 \<or> (\<exists>draft.
                      llm env (length (log @ calls) + 1) Writer (write_prompt t plan summary)
                        = Inr draft \<and>
                      ((llm env (length (log @ calls) + 2) Optimizer (optimize_prompt draft) = Inl e \<and>
                        log' = log @ calls @ [(Planner, plan_prompt t summary),
                                              (Writer, write_prompt t plan summary),
                                              (Optimizer, optimize_prompt draft)])
                       \<or> (\<exists>report.
                            llm env (length (log @ calls) + 2) Optimizer (optimize_prompt draft)
                              = Inr report \<and>
                            llm env (length (log @ calls) + 3) Finalizer
                              (finalize_prompt draft report) = Inl e \<and>
                            log' = log @ calls @ [(Planner, plan_prompt t summary),
                                                  (Writer, write_prompt t plan summary),
                                                  (Optimizer, optimize_prompt draft),
                                                  (Finalizer, finalize_prompt draft report)])))))"
      unfolding stages_after_research [OF rs]
      by (auto split: sum.splits)
    with rs calls(2) show ?thesis
      by blast
  qed
qed


lemma run_stages_raising_call:
  assumes "run_stages env t log = (Inl e, log')"
  shows "length log < length log' \<and>
         last log' \<noteq> (Researcher, fallback_prompt t) \<and>
         llm env (length log' - 1) (fst (last log')) (snd (last log')) = Inl e"
  using run_stages_raises [OF assms]
  by (elim disjE exE conjE) (simp_all add: research_prompt_neq_fallback eval_nat_numeral)

lemma run_stages_total:
  assumes "\<forall>i a p. length log \<le> i \<and> i < length (snd (run_stages env t log)) \<and>
                   snd (run_stages env t log) ! i = (a, p) \<and>
                   (a, p) \<noteq> (Researcher, fallback_prompt t)
                   \<longrightarrow> (\<exists>c. llm env i a p = Inr c)"
  shows "\<exists>v. fst (run_stages env t log) = Inr v"
proof (rule ccontr)
  assume n: "\<not> (\<exists>v. fst (run_stages env t log) = Inr v)"
  obtain r log' where r: "run_stages env t log = (r, log')"
    by (cases "run_stages env t log") auto
  with n obtain e where e: "r = Inl e"
    by (cases r) auto
  from run_stages_raising_call [OF r [unfolded e]] have
    l: "length log < length log'"
    and nr: "last log' \<noteq> (Researcher, fallback_prompt t)"
    and f: "llm env (length log' - 1) (fst (last log')) (snd (last log')) = Inl e"
    by simp_all
  from l have ne: "log' \<noteq> []" by auto
  have nth: "log' ! (length log' - 1) = (fst (last log'), snd (last log'))"
    using ne by (simp add: last_conv_nth)
  have "\<exists>c. llm env (length log' - 1) (fst (last log')) (snd (last log')) = Inr c"
  proof (rule assms [rule_format])
    show "length log \<le> length log' - 1 \<and>
          length log' - 1 < length (snd (run_stages env t log)) \<and>
          snd (run_stages env t log) ! (length log' - 1) = (fst (last log'), snd (last log')) \<and>
          (fst (last log'), snd (last log')) \<noteq> (Researcher, fallback_prompt t)"
      using r l nr nth by auto
  qed
  with f show False by simp
qed


subsection \<open>One retry, then the fallback\<close>

lemma research_stage_retry:
  assumes "llm env (length log) Researcher (research_prompt topic) = Inr content"
  shows "\<exists>summary calls rest.
     research_stage env topic log = (Inr summary, log @ calls) \<and>
     snd (run_stages env topic log) = log @ calls @ (Planner, plan_prompt topic summary) # rest \<and>
     (if has_research_signal (unicode_lower env) (Some (strip (or_empty content)))
      then calls = [(Researcher, research_prompt topic)] \<and> summary = strip (or_empty content)
      else calls = [(Researcher, research_prompt topic), (Researcher, fallback_prompt topic)] \<and>
           summary =
             (case llm env (Suc (length log)) Researcher (fallback_prompt topic) of
                Inl e \<Rightarrow> structured_fallback_research env topic
              | Inr retry \<Rightarrow>
                  if has_research_signal (unicode_lower env) (Some (strip (or_empty retry)))
                  then strip (or_empty retry)
                  else structured_fallback_research env topic))"
proof (cases "has_research_signal (unicode_lower env) (Some (strip (or_empty content)))")
  case True
  with assms have r: "research_stage env topic log =
      (Inr (strip (or_empty content)), log @ [(Researcher, research_prompt topic)])"
    by (simp add: research_stage_unfold)
  from run_stages_after_research [OF r] True r show ?thesis by auto
next
  case False
  define summary where "summary =
     (case llm env (Suc (length log)) Researcher (fallback_prompt topic) of
        Inl e \<Rightarrow> structured_fallback_research env topic
      | Inr retry \<Rightarrow>
          if has_research_signal (unicode_lower env) (Some (strip (or_empty retry)))
          then strip (or_empty retry)
          else structured_fallback_research env topic)"
  with assms False have r: "research_stage env topic log =
      (Inr summary, log @ [(Researcher, research_prompt topic), (Researcher, fallback_prompt topic)])"
    by (simp add: research_stage_unfold)
  from run_stages_after_research [OF r] obtain rest where
    "snd (run_stages env topic log) =
       (log @ [(Researcher, research_prompt topic), (Researcher, fallback_prompt topic)])
       @ (Planner, plan_prompt topic summary) # rest" by blast
  with False r summary_def show ?thesis by auto
qed

lemma run_first_raises:
  "llm env (length log) Researcher (research_prompt topic) = Inl e \<Longrightarrow> topic \<noteq> [] \<Longrightarrow>
   run env (Some topic) prompt log = (Inl e, log @ [(Researcher, research_prompt topic)])"
  by (simp add: run_def truthy_def or_empty_def run_stages_first_raises)

text \<open>
  Claim C2, as amended. Provided the first researcher call returns: when its answer fails
  \<open>_has_research_signal\<close> the researcher is called again exactly once, with the fixed
  fallback prompt; when the retried answer fails too, or the retry raises, the text of
  \<open>_structured_fallback_research\<close> is the research summary. There is never a second
  retry, and the summary is what the plan stage is then called with. An exception of the
  first researcher call is not caught: the stages, and the run, end with it after that one
  call.
\<close>

theorem research_stage_retry_once:
  "research_stage env topic log =
     (case llm env (length log) Researcher (research_prompt topic) of
        Inl e \<Rightarrow> (Inl e, log @ [(Researcher, research_prompt topic)])
      | Inr content \<Rightarrow>
          if has_research_signal (unicode_lower env) (Some (strip (or_empty content)))
          then (Inr (strip (or_empty content)), log @ [(Researcher, research_prompt topic)])
          else
            (Inr (case llm env (Suc (length log)) Researcher (fallback_prompt topic) of
                    Inl e \<Rightarrow> structured_fallback_research env topic
                  | Inr retry \<Rightarrow>
                      if has_research_signal (unicode_lower env) (Some (strip (or_empty retry)))
                      then strip (or_empty retry)
                      else structured_fallback_research env topic),
             log @ [(Researcher, research_prompt topic), (Researcher, fallback_prompt topic)]))
   \<and> research_prompt topic
       = lit ''Research key facts, statistics, and user questions about: '' @ topic
   \<and> fallback_prompt topic
       = lit ''Provide a concise research summary for '' @ [39] @ topic @ [39]
         @ lit ''. List at least five bullet points covering statistics, audience pain points, and common user questions.''
   \<and> (case llm env (length log) Researcher (research_prompt topic) of
         Inl e \<Rightarrow>
           run_stages env topic log = (Inl e, log @ [(Researcher, research_prompt topic)]) \<and>
           (topic \<noteq> [] \<longrightarrow>
              run env (Some topic) prompt log = (Inl e, log @ [(Researcher, research_prompt topic)]))
       | Inr content \<Rightarrow>
           (\<exists>summary calls rest.
              research_stage env topic log = (Inr summary, log @ calls) \<and>
              snd (run_stages env topic log)
                = log @ calls @ (Planner, plan_prompt topic summary) # rest \<and>
              (if has_research_signal (unicode_lower env) (Some (strip (or_empty content)))
               then calls = [(Researcher, research_prompt topic)] \<and>
                    summary = strip (or_empty content)
               else calls = [(Researcher, research_prompt topic),
                             (Researcher, fallback_prompt topic)] \<and>
                    summary =
                      (case llm env (Suc (length log)) Researcher (fallback_prompt topic) of
                         Inl e \<Rightarrow> structured_fallback_research env topic
                       | Inr retry \<Rightarrow>
                           if has_research_signal (unicode_lower env)
                                (Some (strip (or_empty retry)))
                           then strip (or_empty retry)
                           else structured_fallback_research env topic))))"
proof (intro conjI)
  show "research_stage env topic log =
     (case llm env (length log) Researcher (research_prompt topic) of
        Inl e \<Rightarrow> (Inl e, log @ [(Researcher, research_prompt topic)])
      | Inr content \<Rightarrow>
          if has_research_signal (unicode_lower env) (Some (strip (or_empty content)))
          then (Inr (strip (or_empty content)), log @ [(Researcher, research_prompt topic)])
          else
            (Inr (case llm env (Suc (length log)) Researcher (fallback_prompt topic) of
                    Inl e \<Rightarrow> structured_fallback_research env topic
                  | Inr retry \<Rightarrow>
                      if has_research_signal (unicode_lower env) (Some (strip (or_empty retry)))
                      then strip (or_empty retry)
                      else structured_fallback_research env topic),
             log @ [(Researcher, research_prompt topic), (Researcher, fallback_prompt topic)]))"
    by (rule research_stage_unfold)
  show "research_prompt topic
       = lit ''Research key facts, statistics, and user questions about: '' @ topic"
    by (rule research_prompt_text)
  show "fallback_prompt topic
       = lit ''Provide a concise research summary for '' @ [39] @ topic @ [39]
         @ lit ''. List at least five bullet points covering statistics, audience pain points, and common user questions.''"
    by (rule fallback_prompt_text)
  show "case llm env (length log) Researcher (research_prompt topic) of
         Inl e \<Rightarrow>
           run_stages env topic log = (Inl e, log @ [(Researcher, research_prompt topic)]) \<and>
           (topic \<noteq> [] \<longrightarrow>
              run env (Some topic) prompt log = (Inl e, log @ [(Researcher, research_prompt topic)]))
       | Inr content \<Rightarrow>
           (\<exists>summary calls rest.
              research_stage env topic log = (Inr summary, log @ calls) \<and>
              snd (run_stages env topic log)
                = log @ calls @ (Planner, plan_prompt topic summary) # rest \<and>
              (if has_research_signal (unicode_lower env) (Some (strip (or_empty content)))
               then calls = [(Researcher, research_prompt topic)] \<and>
                    summary = strip (or_empty content)
               else calls = [(Researcher, research_prompt topic),
                             (Researcher, fallback_prompt topic)] \<and>
                    summary =
                      (case llm env (Suc (length log)) Researcher (fallback_prompt topic) of
                         Inl e \<Rightarrow> structured_fallback_research env topic
                       | Inr retry \<Rightarrow>
                           if has_research_signal (unicode_lower env)
                                (Some (strip (or_empty retry)))
                           then strip (or_empty retry)
                           else structured_fallback_research env topic)))"
  proof (cases "llm env (length log) Researcher (research_prompt topic)")
    case (Inl e)
    show ?thesis
      unfolding Inl sum.case
      using run_stages_first_raises [OF Inl] run_first_raises [OF Inl, of prompt]
      by blast
  next
    case (Inr content)
    show ?thesis
      unfolding Inr sum.case
      by (rule research_stage_retry [OF Inr])
  qed
qed

theorem research_stage_retry_once_witness:
  "research_stage apology_env (lit ''AI'') [] =
     (Inr (structured_fallback_research apology_env (lit ''AI'')),
      [(Researcher, research_prompt (lit ''AI'')), (Researcher, fallback_prompt (lit ''AI''))])"
proof -
  have h: "llm apology_env (length []) Researcher (research_prompt (lit ''AI''))
             = Inr (Some (lit ''I apologize.''))"
    by (simp add: apology_env_def)
  have ns: "\<not> has_research_signal (unicode_lower apology_env)
                 (Some (strip (or_empty (Some (lit ''I apologize.'')))))"
    by (simp add: has_research_signal_def lit_def or_empty_def strip_def isspace_def lower_def
        ascii_lower_def failure_markers_def apology_env_def steady_env_def)
  have retry: "llm apology_env (Suc (length [])) Researcher (fallback_prompt (lit ''AI''))
                 = Inl (RuntimeError (lit ''quota exceeded''))"
    by (simp add: apology_env_def)
  note t = research_stage_retry_once [of apology_env "lit ''AI''" "[]" None]
  from t have "\<exists>summary calls rest.
              research_stage apology_env (lit ''AI'') [] = (Inr summary, [] @ calls) \<and>
              snd (run_stages apology_env (lit ''AI'') [])
                = [] @ calls @ (Planner, plan_prompt (lit ''AI'') summary) # rest \<and>
              calls = [(Researcher, research_prompt (lit ''AI'')),
                       (Researcher, fallback_prompt (lit ''AI''))] \<and>
              summary = structured_fallback_research apology_env (lit ''AI'')"
    unfolding h sum.case if_not_P [OF ns] retry by blast
  then show ?thesis by auto
qed

text \<open>
  The claim as stated fails: the first researcher call stands outside every \<open>try\<close>, so
  when it raises the run fails in the research stage, with no summary and no plan stage.
\<close>

theorem research_stage_first_call_counterexample:
  "run provider_down_env (Some (lit ''AI'')) None [] =
     (Inl (RuntimeError (lit ''quota exceeded'')), [(Researcher, research_prompt (lit ''AI''))])"
  by (simp add: run_def run_stages_def research_stage_unfold truthy_def or_empty_def
      provider_down_env_def lit_def)


subsection \<open>Five stages in order\<close>

text \<open>
  Claim C1, as amended. For a call of \<open>run\<close> with a topic, the run is the decision
  \<open>five_stages\<close>. When it returns, its agent calls were those of exactly five stages in
  the order research (one researcher call, or two when the first answer was retried), plan,
  write, optimize, finalize; the plan prompt is built from the research summary, the write
  prompt from the plan and the research summary, the optimize prompt from the draft, the
  finalize prompt from the draft and the optimization report; and the value returned is the
  finalizer's content. When it raises, the exception is the one that the call of some stage
  raised, that call is the last one made, and no later stage is called. It returns whenever
  none of the calls it makes, the research retry apart, raises.
\<close>

theorem run_five_stages:
  assumes "truthy topic"
  shows "run env topic prompt log = five_stages env (or_empty topic) log
       \<and> (\<forall>v log'. run env topic prompt log = (Inr v, log') \<longrightarrow>
           (\<exists>calls summary plan draft report.
              research_stage env (or_empty topic) log = (Inr summary, log @ calls) \<and>
              (calls = [(Researcher, research_prompt (or_empty topic))] \<or>
               calls = [(Researcher, research_prompt (or_empty topic)),
                        (Researcher, fallback_prompt (or_empty topic))]) \<and>
              llm env (length (log @ calls)) Planner (plan_prompt (or_empty topic) summary)
                = Inr plan \<and>
              llm env (length (log @ calls) + 1) Writer (write_prompt (or_empty topic) plan summary)
                = Inr draft \<and>
              llm env (length (log @ calls) + 2) Optimizer (optimize_prompt draft) = Inr report \<and>
              llm env (length (log @ calls) + 3) Finalizer (finalize_prompt draft report) = Inr v \<and>
              log' = log @ calls @ [(Planner, plan_prompt (or_empty topic) summary),
                                    (Writer, write_prompt (or_empty topic) plan summary),
                                    (Optimizer, optimize_prompt draft),
                                    (Finalizer, finalize_prompt draft report)]))
       \<and> (\<forall>e log'. run env topic prompt log = (Inl e, log') \<longrightarrow>
           (llm env (length log) Researcher (research_prompt (or_empty topic)) = Inl e \<and>
            log' = log @ [(Researcher, research_prompt (or_empty topic))])
           \<or> (\<exists>summary calls.
                research_stage env (or_empty topic) log = (Inr summary, log @ calls) \<and>
                (calls = [(Researcher, research_prompt (or_empty topic))] \<or>
                 calls = [(Researcher, research_prompt (or_empty topic)),
                          (Researcher, fallback_prompt (or_empty topic))]) \<and>
                ((llm env (length (log @ calls)) Planner (plan_prompt (or_empty topic) summary)
                    = Inl e \<and>
                  log' = log @ calls @ [(Planner, plan_prompt (or_empty topic) summary)])
                 \<or> (\<exists>plan.
                      llm env (length (log @ calls)) Planner (plan_prompt (or_empty topic) summary)
                        = Inr plan \<and>
                      ((llm env (length (log @ calls) + 1) Writer
                          (write_prompt (or_empty topic) plan summary) = Inl e \<and>
                        log' = log @ calls @ [(Planner, plan_prompt (or_empty topic) summary),
                                              (Writer, write_prompt (or_empty topic) plan summary)])
                       \<or> (\<exists>draft.
                            llm env (length (log @ calls) + 1) Writer
                              (write_prompt (or_empty topic) plan summary) = Inr draft \<and>
                            ((llm env (length (log @ calls) + 2) Optimizer (optimize_prompt draft)
                                = Inl e \<and>
                              log' = log @ calls @ [(Planner, plan_prompt (or_empty topic) summary),
                                                    (Writer, write_prompt (or_empty topic) plan summary),
                                                    (Optimizer, optimize_prompt draft)])
                             \<or> (\<exists>report.
                                  llm env (length (log @ calls) + 2) Optimizer
                                    (optimize_prompt draft) = Inr report \<and>
                                  llm env (length (log @ calls) + 3) Finalizer
                                    (finalize_prompt draft report) = Inl e \<and>
                                  log' = log @ calls @
                                    [(Planner, plan_prompt (or_empty topic) summary),
                                     (Writer, write_prompt (or_empty topic) plan summary),
                                     (Optimizer, optimize_prompt draft),
                                     (Finalizer, finalize_prompt draft report)]))))))))
       \<and> ((\<forall>i a p. length log \<le> i \<and> i < length (snd (run env topic prompt log)) \<and>
                    snd (run env topic prompt log) ! i = (a, p) \<and>
                    (a, p) \<noteq> (Researcher, fallback_prompt (or_empty topic))
                    \<longrightarrow> (\<exists>c. llm env i a p = Inr c))
            \<longrightarrow> (\<exists>v. fst (run env topic prompt log) = Inr v))"
  unfolding run_with_topic [OF assms]
proof (intro conjI allI impI)
  show "run_stages env (or_empty topic) log = five_stages env (or_empty topic) log"
    by (rule run_stages_five_stages)
next
  fix v log'
  assume "run_stages env (or_empty topic) log = (Inr v, log')"
  then show "\<exists>calls summary plan draft report.
              research_stage env (or_empty topic) log = (Inr summary, log @ calls) \<and>
              (calls = [(Researcher, research_prompt (or_empty topic))] \<or>
               calls = [(Researcher, research_prompt (or_empty topic)),
                        (Researcher, fallback_prompt (or_empty topic))]) \<and>
              llm env (length (log @ calls)) Planner (plan_prompt (or_empty topic) summary)
                = Inr plan \<and>
              llm env (length (log @ calls) + 1) Writer (write_prompt (or_empty topic) plan summary)
                = Inr draft \<and>
              llm env (length (log @ calls) + 2) Optimizer (optimize_prompt draft) = Inr report \<and>
              llm env (length (log @ calls) + 3) Finalizer (finalize_prompt draft report) = Inr v \<and>
              log' = log @ calls @ [(Planner, plan_prompt (or_empty topic) summary),
                                    (Writer, write_prompt (or_empty topic) plan summary),
                                    (Optimizer, optimize_prompt draft),
                                    (Finalizer, finalize_prompt draft report)]"
    by (rule run_stages_returns)
next
  fix e log'
  assume "run_stages env (or_empty topic) log = (Inl e, log')"
  then show "(llm env (length log) Researcher (research_prompt (or_empty topic)) = Inl e \<and>
            log' = log @ [(Researcher, research_prompt (or_empty topic))])
           \<or> (\<exists>summary calls.
                research_stage env (or_empty topic) log = (Inr summary, log @ calls) \<and>
                (calls = [(Researcher, research_prompt (or_empty topic))] \<or>
                 calls = [(Researcher, research_prompt (or_empty topic)),
                          (Researcher, fallback_prompt (or_empty topic))]) \<and>
                ((llm env (length (log @ calls)) Planner (plan_prompt (or_empty topic) summary)
                    = Inl e \<and>
                  log' = log @ calls @ [(Planner, plan_prompt (or_empty topic) summary)])
                 \<or> (\<exists>plan.
                      llm env (length (log @ calls)) Planner (plan_prompt (or_empty topic) summary)
                        = Inr plan \<and>
                      ((llm env (length (log @ calls) + 1) Writer
                          (write_prompt (or_empty topic) plan summary) = Inl e \<and>
                        log' = log @ calls @ [(Planner, plan_prompt (or_empty topic) summary),
                                              (Writer, write_prompt (or_empty topic) plan summary)])
                       \<or> (\<exists>draft.
                            llm env (length (log @ calls) + 1) Writer
                              (write_prompt (or_empty topic) plan summary) = Inr draft \<and>
                            ((llm env (length (log @ calls) + 2) Optimizer (optimize_prompt draft)
                                = Inl e \<and>
                              log' = log @ calls @ [(Planner, plan_prompt (or_empty topic) summary),
                                                    (Writer, write_prompt (or_empty topic) plan summary),
                                                    (Optimizer, optimize_prompt draft)])
                             \<or> (\<exists>report.
                                  llm env (length (log @ calls) + 2) Optimizer
                                    (optimize_prompt draft) = Inr report \<and>
                                  llm env (length (log @ calls) + 3) Finalizer
                                    (finalize_prompt draft report) = Inl e \<and>
                                  log' = log @ calls @
                                    [(Planner, plan_prompt (or_empty topic) summary),
                                     (Writer, write_prompt (or_empty topic) plan summary),
                                     (Optimizer, optimize_prompt draft),
                                     (Finalizer, finalize_prompt draft report)])))))))"
    by (rule run_stages_raises)
next
  assume "\<forall>i a p. length log \<le> i \<and> i < length (snd (run_stages env (or_empty topic) log)) \<and>
                    snd (run_stages env (or_empty topic) log) ! i = (a, p) \<and>
                    (a, p) \<noteq> (Researcher, fallback_prompt (or_empty topic))
                    \<longrightarrow> (\<exists>c. llm env i a p = Inr c)"
  then show "\<exists>v. fst (run_stages env (or_empty topic) log) = Inr v"
    by (rule run_stages_total)
qed

lemma research_text_has_signal:
  "has_research_signal (\<lambda>s i. [s ! i]) (Some (strip (or_empty (Some research_text))))"
  by (simp add: has_research_signal_def lit_def or_empty_def strip_def isspace_def lower_def
      ascii_lower_def failure_markers_def signal_delimiters_def research_text_def)

lemma research_stage_steady:
  "research_stage steady_env t log =
     (Inr (strip (or_empty (Some research_text))), log @ [(Researcher, research_prompt t)])"
  using research_text_has_signal
  by (simp add: research_stage_unfold steady_env_def steady_llm_def)

theorem run_five_stages_witness:
  "truthy (Some (lit ''AI'')) \<and>
   (\<exists>v log'. run steady_env (Some (lit ''AI'')) None [] = (Inr v, log') \<and>
      v = Some (lit ''Final post'') \<and>
      map fst log' = [Researcher, Planner, Writer, Optimizer, Finalizer])"
proof -
  have t: "truthy (Some (lit ''AI''))"
    by (simp add: truthy_def lit_def)
  note th = run_five_stages [OF t, of steady_env None "[]"]
  have ok: "\<forall>i a p. length [] \<le> i \<and> i < length (snd (run steady_env (Some (lit ''AI'')) None [])) \<and>
                    snd (run steady_env (Some (lit ''AI'')) None []) ! i = (a, p) \<and>
                    (a, p) \<noteq> (Researcher, fallback_prompt (or_empty (Some (lit ''AI''))))
              \<longrightarrow> (\<exists>c. llm steady_env i a p = Inr c)"
    by (simp add: steady_env_def steady_llm_def)
  from th ok have "\<exists>v. fst (run steady_env (Some (lit ''AI'')) None []) = Inr v"
    by blast
  then obtain v log' where r: "run steady_env (Some (lit ''AI'')) None [] = (Inr v, log')"
    by (cases "run steady_env (Some (lit ''AI'')) None []") auto
  with th
  obtain calls summary plan draft report where
    c: "research_stage steady_env (or_empty (Some (lit ''AI''))) [] = (Inr summary, [] @ calls)"
       "llm steady_env (length ([] @ calls) + 3) Finalizer (finalize_prompt draft report) = Inr v"
       "log' = [] @ calls @ [(Planner, plan_prompt (or_empty (Some (lit ''AI''))) summary),
                            (Writer, write_prompt (or_empty (Some (lit ''AI''))) plan summary),
                            (Optimizer, optimize_prompt draft),
                            (Finalizer, finalize_prompt draft report)]"
    by blast
  from c(1) have "calls = [(Researcher, research_prompt (or_empty (Some (lit ''AI''))))]"
    by (simp add: research_stage_steady)
  with c(2,3) have "v = Some (lit ''Final post'')"
    and "map fst log' = [Researcher, Planner, Writer, Optimizer, Finalizer]"
    by (simp_all add: steady_env_def steady_llm_def)
  with t r show ?thesis by simp
qed

text \<open>
  The claim as stated fails: an exception of a stage's agent call is not caught. With a
  planner that raises, the run raises after two stages and returns nothing.
\<close>

theorem run_planner_raises_counterexample:
  "fst (run planner_down_env (Some (lit ''AI'')) None [])
     = Inl (RuntimeError (lit ''quota exceeded''))
   \<and> map fst (snd (run planner_down_env (Some (lit ''AI'')) None [])) = [Researcher, Planner]"
proof -
  have r: "research_stage planner_down_env t log =
     (Inr (strip (or_empty (Some research_text))), log @ [(Researcher, research_prompt t)])"
    for t log
    using research_text_has_signal
    by (simp add: research_stage_unfold planner_down_env_def steady_env_def steady_llm_def)
  have t: "truthy (Some (lit ''AI''))"
    by (simp add: truthy_def lit_def)
  show ?thesis
    unfolding run_with_topic [OF t] run_stages_def r
    by (simp add: agent_run_def planner_down_env_def)
qed

subsection \<open>Topic or prompt\<close>

lemma run_without_input:
  "\<not> truthy topic \<Longrightarrow> \<not> truthy prompt \<Longrightarrow> run env topic prompt log = (Inl missing_topic_and_prompt, log)"
  by (simp add: run_def)

lemma topic_prompt_text:
  "topic_prompt p = lit ''Generate a blog topic for: '' @ p"
  by (simp add: topic_prompt_def)

lemma run_with_prompt_only:
  "truthy prompt \<Longrightarrow> \<not> truthy topic \<Longrightarrow>
   run env topic prompt log =
     (case llm env (length log) TopicGenerator (topic_prompt (or_empty prompt)) of
        Inl e \<Rightarrow> (Inl e, log @ [(TopicGenerator, topic_prompt (or_empty prompt))])
      | Inr None \<Rightarrow>
          (Inl none_has_no_strip, log @ [(TopicGenerator, topic_prompt (or_empty prompt))])
      | Inr (Some content) \<Rightarrow>
          run_stages env (strip content)
            (log @ [(TopicGenerator, topic_prompt (or_empty prompt))]))"
  by (simp add: run_def agent_run_def split: sum.splits option.splits)

lemma run_stages_calls:
  "\<exists>c calls. snd (run_stages env t log) = log @ c # calls"
proof -
  obtain r log' where r: "run_stages env t log = (r, log')"
    by (cases "run_stages env t log") auto
  show ?thesis
  proof (cases r)
    case (Inl e)
    with r have "run_stages env t log = (Inl e, log')" by simp
    from run_stages_raises [OF this] show ?thesis
      unfolding r by auto
  next
    case (Inr v)
    with r have "run_stages env t log = (Inr v, log')" by simp
    from run_stages_returns [OF this] show ?thesis
      unfolding r by auto
  qed
qed

lemma run_calls_iff:
  "snd (run env topic prompt log) = log \<longleftrightarrow> \<not> truthy topic \<and> \<not> truthy prompt"
proof (cases "truthy topic")
  case True
  from run_stages_calls [of env "or_empty topic" log] True show ?thesis
    by (auto simp: run_with_topic)
next
  case False
  show ?thesis
  proof (cases "truthy prompt")
    case True
    show ?thesis
    proof (cases "llm env (length log) TopicGenerator (topic_prompt (or_empty prompt))")
      case (Inl e)
      with True False show ?thesis
        by (simp add: run_with_prompt_only)
    next
      case (Inr answer)
      show ?thesis
      proof (cases answer)
        case None
        with Inr True False show ?thesis
          by (simp add: run_with_prompt_only)
      next
        case (Some content)
        from run_stages_calls [of env "strip content"
            "log @ [(TopicGenerator, topic_prompt (or_empty prompt))]"]
        show ?thesis
          using Inr Some True False by (auto simp: run_with_prompt_only)
      qed
    qed
  next
    case f: False
    with False show ?thesis
      by (simp add: run_without_input)
  qed
qed

text \<open>
  Claim C5, as amended. \<open>run\<close> raises before any agent call exactly when both the topic and
  the prompt are absent (\<open>None\<close> or empty), and the exception is then the \<open>ValueError\<close>
  ``Either 'topic' or 'prompt' must be provided.''. With a prompt and no topic, the first call
  is the topic generator on ``Generate a blog topic for: '' followed by the prompt: when that
  call raises, the run raises the same exception and no stage runs; when it answers without
  content, the run raises \<open>AttributeError\<close> and no stage runs; otherwise the five stages run
  on the stripped topic it answered. With a topic, the five stages run on it and no topic is
  generated.
\<close>

theorem run_topic_or_prompt:
  "(snd (run env topic prompt log) = log \<longleftrightarrow> \<not> truthy topic \<and> \<not> truthy prompt)
   \<and> (\<not> truthy topic \<and> \<not> truthy prompt \<longrightarrow>
        run env topic prompt log =
          (Inl (ValueError (lit ''Either '' @ [39] @ lit ''topic'' @ [39] @ lit '' or '' @ [39]
                            @ lit ''prompt'' @ [39] @ lit '' must be provided.'')), log))
   \<and> (truthy prompt \<and> \<not> truthy topic \<longrightarrow>
        run env topic prompt log =
          (case llm env (length log) TopicGenerator
                  (lit ''Generate a blog topic for: '' @ or_empty prompt) of
             Inl e \<Rightarrow>
               (Inl e, log @ [(TopicGenerator, lit ''Generate a blog topic for: '' @ or_empty prompt)])
           | Inr None \<Rightarrow>
               (Inl (AttributeError ([39] @ lit ''NoneType'' @ [39]
                       @ lit '' object has no attribute '' @ [39] @ lit ''strip'' @ [39])),
                log @ [(TopicGenerator, lit ''Generate a blog topic for: '' @ or_empty prompt)])
           | Inr (Some content) \<Rightarrow>
               five_stages env (strip content)
                 (log @ [(TopicGenerator, lit ''Generate a blog topic for: '' @ or_empty prompt)])))
   \<and> (truthy topic \<longrightarrow> run env topic prompt log = five_stages env (or_empty topic) log)"
proof (intro conjI impI)
  show "snd (run env topic prompt log) = log \<longleftrightarrow> \<not> truthy topic \<and> \<not> truthy prompt"
    by (rule run_calls_iff)
next
  assume "\<not> truthy topic \<and> \<not> truthy prompt"
  then show "run env topic prompt log =
          (Inl (ValueError (lit ''Either '' @ [39] @ lit ''topic'' @ [39] @ lit '' or '' @ [39]
                            @ lit ''prompt'' @ [39] @ lit '' must be provided.'')), log)"
    by (simp add: run_without_input missing_topic_and_prompt_def apostrophe_def)
next
  assume "truthy prompt \<and> \<not> truthy topic"
  then have p: "truthy prompt" and t: "\<not> truthy topic" by simp_all
  show "run env topic prompt log =
          (case llm env (length log) TopicGenerator
                  (lit ''Generate a blog topic for: '' @ or_empty prompt) of
             Inl e \<Rightarrow>
               (Inl e, log @ [(TopicGenerator, lit ''Generate a blog topic for: '' @ or_empty prompt)])
           | Inr None \<Rightarrow>
               (Inl (AttributeError ([39] @ lit ''NoneType'' @ [39]
                       @ lit '' object has no attribute '' @ [39] @ lit ''strip'' @ [39])),
                log @ [(TopicGenerator, lit ''Generate a blog topic for: '' @ or_empty prompt)])
           | Inr (Some content) \<Rightarrow>
               five_stages env (strip content)
                 (log @ [(TopicGenerator, lit ''Generate a blog topic for: '' @ or_empty prompt)]))"
    unfolding run_with_prompt_only [OF p t] topic_prompt_text run_stages_five_stages
      none_has_no_strip_def apostrophe_def
    by (rule refl)
next
  assume "truthy topic"
  then show "run env topic prompt log = five_stages env (or_empty topic) log"
    by (simp add: run_with_topic run_stages_five_stages)
qed


theorem run_topic_or_prompt_witness:
  "run steady_env None (Some []) [] =
     (Inl (ValueError (lit ''Either '' @ [39] @ lit ''topic'' @ [39] @ lit '' or '' @ [39]
                       @ lit ''prompt'' @ [39] @ lit '' must be provided.'')), [])
   \<and> run steady_env None (Some (lit ''seo'')) [] =
       five_stages steady_env (lit ''Answer engines'')
         [(TopicGenerator, lit ''Generate a blog topic for: seo'')]
   \<and> run steady_env (Some (lit ''AI'')) (Some (lit ''seo'')) [] = five_stages steady_env (lit ''AI'') []"
proof -
  have a: "\<not> truthy None \<and> \<not> truthy (Some [])"
    by (simp add: truthy_def)
  have b: "truthy (Some (lit ''seo'')) \<and> \<not> truthy None"
    by (simp add: truthy_def lit_def)
  have c: "truthy (Some (lit ''AI''))"
    by (simp add: truthy_def lit_def)
  have g: "llm steady_env i TopicGenerator p = Inr (Some (lit '' Answer engines ''))" for i p
    by (simp add: steady_env_def steady_llm_def)
  have s: "strip (lit '' Answer engines '') = lit ''Answer engines''"
    by (simp add: strip_def lit_def isspace_def)
  have l: "lit ''Generate a blog topic for: '' @ lit ''seo'' = lit ''Generate a blog topic for: seo''"
    by (simp add: lit_def)
  from a have 1: "run steady_env None (Some []) [] =
     (Inl (ValueError (lit ''Either '' @ [39] @ lit ''topic'' @ [39] @ lit '' or '' @ [39]
                       @ lit ''prompt'' @ [39] @ lit '' must be provided.'')), [])"
    using run_topic_or_prompt [of steady_env None "Some []" "[]"] by blast
  from b have 2: "run steady_env None (Some (lit ''seo'')) [] =
       five_stages steady_env (lit ''Answer engines'')
         [(TopicGenerator, lit ''Generate a blog topic for: seo'')]"
    using run_topic_or_prompt [of steady_env None "Some (lit ''seo'')" "[]"]
    by (simp add: g s l or_empty_def)
  from c have 3: "run steady_env (Some (lit ''AI'')) (Some (lit ''seo'')) [] =
       five_stages steady_env (lit ''AI'') []"
    using run_topic_or_prompt [of steady_env "Some (lit ''AI'')" "Some (lit ''seo'')" "[]"]
    by (simp add: or_empty_def)
  from 1 2 3 show ?thesis by blast
qed

text \<open>
  The claim as stated fails in both halves. A \<open>ValueError\<close> of an agent call is propagated,
  so the run raises \<open>ValueError\<close> although a topic is present; and with a prompt only, a
  topic generator that raises ends the run before any of the five stages.
\<close>

theorem run_value_error_counterexample:
  "truthy (Some (lit ''AI''))
   \<and> run value_error_env (Some (lit ''AI'')) None [] =
       (Inl (ValueError (lit ''bad request'')),
        [(Researcher, lit ''Research key facts, statistics, and user questions about: AI'')])
   \<and> truthy (Some (lit ''seo''))
   \<and> run value_error_env None (Some (lit ''seo'')) [] =
       (Inl (ValueError (lit ''bad request'')),
        [(TopicGenerator, lit ''Generate a blog topic for: seo'')])"
proof -
  have t: "truthy (Some (lit ''AI''))" and p: "truthy (Some (lit ''seo''))"
    and n: "\<not> truthy None"
    by (simp_all add: truthy_def lit_def)
  have l: "llm value_error_env i a q = Inl (ValueError (lit ''bad request''))" for i a q
    by (simp add: value_error_env_def)
  have 1: "run value_error_env (Some (lit ''AI'')) None [] =
       (Inl (ValueError (lit ''bad request'')),
        [(Researcher, lit ''Research key facts, statistics, and user questions about: AI'')])"
    unfolding run_with_topic [OF t] run_stages_first_raises [OF l]
    by (simp add: research_prompt_text or_empty_def lit_def)
  have 2: "run value_error_env None (Some (lit ''seo'')) [] =
       (Inl (ValueError (lit ''bad request'')),
        [(TopicGenerator, lit ''Generate a blog topic for: seo'')])"
    unfolding run_with_prompt_only [OF p n] l
    by (simp add: topic_prompt_text or_empty_def lit_def)
  from t p 1 2 show ?thesis by blast
qed

subsection \<open>The session is transactional\<close>



subsection \<open>Reusing a record\<close>









subsection \<open>Processing one blog request\<close>

lemma get_session_ok:
  "block (committed st) = (Inr v, data) \<Longrightarrow>
   get_session block st = (Inr v, \<lparr>committed = data, ops = ops st @ [Commit, Close]\<rparr>)"
  by (simp add: get_session_def session_local_def commit_def close_def)


















subsection \<open>A list of prompts\<close>

lemma process_prompts_eq:
  "process_prompts env db payload ps w =
     (map (\<lambda>i. case fst (process_single_blog env db (sub_payload payload (ps ! i))
                          (fold (\<lambda>p v. snd (process_single_blog env db (sub_payload payload p) v))
                                (take i ps) w)) of
                 Inr d \<Rightarrow> PDict d
               | Inl e \<Rightarrow> PDict [(lit ''prompt'', ps ! i), (lit ''error'', PStr (exn_str e)),
                                 (lit ''status'', PStr (lit ''FAILED''))])
          [0..<length ps],
      fold (\<lambda>p v. snd (process_single_blog env db (sub_payload payload p) v)) ps w)"
proof (induction ps arbitrary: w)
  case Nil
  then show ?case by simp
next
  case (Cons p ps)
  obtain outcome w1 where o: "process_single_blog env db (sub_payload payload p) w = (outcome, w1)"
    by (cases "process_single_blog env db (sub_payload payload p) w") auto
  have h: "(case outcome of Inr d \<Rightarrow> PDict d | Inl e \<Rightarrow> failed_item p e) =
           (case outcome of Inr d \<Rightarrow> PDict d
            | Inl e \<Rightarrow> PDict [(lit ''prompt'', p), (lit ''error'', PStr (exn_str e)),
                              (lit ''status'', PStr (lit ''FAILED''))])"
    by (simp add: failed_item_def split: sum.splits)
  show ?case
    unfolding process_prompts.simps o prod.case Cons.IH [of w1] h
    by (simp add: map_upt_Suc o del: upt_Suc cong: sum.case_cong)
qed

text \<open>
  Claim C9, as amended. For a payload whose prompt is, or parses to, a list:
  \<open>generate_and_store_blog\<close> raises \<open>ValueError\<close> before any prompt is processed when the
  payload has no \<open>company_url\<close>, or, that one present, no \<open>user_id\<close> (absent or falsy);
  otherwise it does not raise and returns a list with exactly one result per prompt, in
  order. The result of a prompt is what \<open>_process_single_blog\<close> returns for the payload
  with this prompt and no topic, run in the state that the prompts before it left, or, when
  that raises, a dictionary of the prompt, the message of the exception and the status
  \<open>FAILED\<close>; the prompts after it are processed all the same, and the state at the end is
  the one that the last prompt left.
\<close>

theorem generate_and_store_blog_list:
  assumes "parse_prompt env (dict_get payload (lit ''prompt'')) = PList prompts"
  shows "generate_and_store_blog env db payload w =
     (if \<not> py_truthy (dict_get payload (lit ''company_url''))
      then (Inl (ValueError (lit ''Missing required field: '' @ [39] @ lit ''company_url'' @ [39])), w)
      else if \<not> py_truthy (dict_get payload (lit ''user_id''))
      then (Inl (ValueError (lit ''Missing required field: '' @ [39] @ lit ''user_id'' @ [39])), w)
      else
        (Inr (PList
           (map (\<lambda>i. case fst (process_single_blog env db (sub_payload payload (prompts ! i))
                      (fold (\<lambda>p v. snd (process_single_blog env db (sub_payload payload p) v))
                            (take i prompts) w)) of
                   Inr d \<Rightarrow> PDict d
                 | Inl e \<Rightarrow> PDict [(lit ''prompt'', prompts ! i), (lit ''error'', PStr (exn_str e)),
                                   (lit ''status'', PStr (lit ''FAILED''))])
                [0..<length prompts])),
         fold (\<lambda>p v. snd (process_single_blog env db (sub_payload payload p) v)) prompts w))"
  unfolding generate_and_store_blog_def assms pyval.case process_prompts_eq prod.case
    missing_required_def apostrophe_def
  by (rule refl)

lemma list_payload_seo:
  "fst (process_single_blog provider_down_env db (sub_payload list_payload (PStr (lit ''seo''))) w0)
     = Inl (RuntimeError (lit ''quota exceeded''))"
  by (simp add: process_single_blog_def read_payload_def sub_payload_def list_payload_def
      dict_get_def generate_topic_only_def agent_run_def provider_down_env_def py_str_def lit_def)

lemma list_payload_zero:
  "fst (process_single_blog provider_down_env db (sub_payload list_payload (PInt 0)) w0)
     = Inl missing_topic_or_prompt"
  by (simp add: process_single_blog_def read_payload_def sub_payload_def list_payload_def
      dict_get_def lit_def)

theorem generate_and_store_blog_list_witness:
  "parse_prompt provider_down_env (dict_get list_payload (lit ''prompt''))
     = PList [PStr (lit ''seo''), PInt 0]
   \<and> fst (generate_and_store_blog provider_down_env memory_db list_payload empty_world) =
     Inr (PList
       [PDict [(lit ''prompt'', PStr (lit ''seo'')),
               (lit ''error'', PStr (lit ''quota exceeded'')),
               (lit ''status'', PStr (lit ''FAILED''))],
        PDict [(lit ''prompt'', PInt 0),
               (lit ''error'', PStr (lit ''Missing required field: '' @ [39] @ lit ''topic'' @ [39]
                                     @ lit '' or '' @ [39] @ lit ''prompt'' @ [39])),
               (lit ''status'', PStr (lit ''FAILED''))]])"
proof -
  have c: "py_truthy (dict_get list_payload (lit ''company_url''))"
    by (simp add: list_payload_def dict_get_def lit_def)
  have u: "py_truthy (dict_get list_payload (lit ''user_id''))"
    by (simp add: list_payload_def dict_get_def lit_def)
  have p: "parse_prompt provider_down_env (dict_get list_payload (lit ''prompt''))
             = PList [PStr (lit ''seo''), PInt 0]"
    by (simp add: list_payload_def dict_get_def parse_prompt_def)
  have m: "exn_str missing_topic_or_prompt =
             lit ''Missing required field: '' @ [39] @ lit ''topic'' @ [39]
               @ lit '' or '' @ [39] @ lit ''prompt'' @ [39]"
    by (simp add: missing_topic_or_prompt_def apostrophe_def)
  have n: "[0..<length [PStr (lit ''seo''), PInt 0]] = [0, 1]"
    by (simp add: upt_conv_Cons)
  have "fst (generate_and_store_blog provider_down_env memory_db list_payload empty_world) =
     Inr (PList
       [PDict [(lit ''prompt'', PStr (lit ''seo'')),
               (lit ''error'', PStr (lit ''quota exceeded'')),
               (lit ''status'', PStr (lit ''FAILED''))],
        PDict [(lit ''prompt'', PInt 0),
               (lit ''error'', PStr (lit ''Missing required field: '' @ [39] @ lit ''topic'' @ [39]
                                     @ lit '' or '' @ [39] @ lit ''prompt'' @ [39])),
               (lit ''status'', PStr (lit ''FAILED''))]])"
    unfolding generate_and_store_blog_list [OF p, of memory_db empty_world] n
    by (simp add: c u list_payload_seo list_payload_zero m)
  with p show ?thesis by simp
qed

text \<open>
  The claim as stated fails: the check of the required fields comes before the loop. A
  payload with a list of prompts and no \<open>company_url\<close> makes \<open>generate_and_store_blog\<close>
  raise; no list is returned and no prompt is processed.
\<close>

theorem generate_and_store_blog_list_counterexample:
  "parse_prompt steady_env (dict_get bare_list_payload (lit ''prompt'')) = PList [PStr (lit ''seo'')]
   \<and> generate_and_store_blog steady_env memory_db bare_list_payload empty_world =
       (Inl (ValueError (lit ''Missing required field: '' @ [39] @ lit ''company_url'' @ [39])),
        empty_world)"
  by (simp add: generate_and_store_blog_def bare_list_payload_def dict_get_def parse_prompt_def
      missing_required_def apostrophe_def lit_def)

subsection \<open>Topics of a record stay distinct\<close>




















subsection \<open>The latest-blog endpoints\<close>

lemma fetch_blog_by_user_eq:
  "fetch_blog_by_user db user_id company_url st =
     (Inr (map_option (to_dict db) (get_blog_by_user_and_company db (committed st) user_id company_url)),
      \<lparr>committed = committed st, ops = ops st @ [Commit, Close]\<rparr>)"
  unfolding fetch_blog_by_user_def
  by (rule get_session_ok) (simp split: option.splits)

lemma latest_blog_eq:
  "latest_blog body db args st =
     (if \<not> truthy (args (lit ''user_id'')) \<or> \<not> truthy (args (lit ''company_url''))
      then (Inr (error_body ''Missing user_id or company_url parameters'', 400), st)
      else
        (case get_blog_by_user_and_company db (committed st)
                (or_empty (args (lit ''user_id''))) (or_empty (args (lit ''company_url''))) of
           None \<Rightarrow>
             (Inr (error_body ''Blog not found'', 404),
              \<lparr>committed = committed st, ops = ops st @ [Commit, Close]\<rparr>)
         | Some blog \<Rightarrow>
             if to_dict db blog = []
             then (Inr (error_body ''Blog not found'', 404),
                   \<lparr>committed = committed st, ops = ops st @ [Commit, Close]\<rparr>)
             else (Inr (body (to_dict db blog), 200),
                   \<lparr>committed = committed st, ops = ops st @ [Commit, Close]\<rparr>)))"
  by (simp add: latest_blog_def fetch_blog_by_user_eq Let_def split: option.splits)

text \<open>
  Claim C7. The three latest-blog endpoints validate alike. Each answers 400, with the same
  error body, when \<open>user_id\<close> or \<open>company_url\<close> is missing or empty; otherwise it looks
  the record of the user and company up and answers 404, with the same error body, when there
  is none, and 200 with its data when there is one: the whole dictionary of the record, its
  \<open>topic\<close>, or its three lists of social posts (an absent key reads as the empty list).
  A record whose dictionary were empty would read as no record; \<open>to_dict\<close> is not among the
  sources.
\<close>

theorem latest_blog_endpoints:
  "\<forall>(handler, body) \<in>
      {(get_latest_blog_full, \<lambda>blog. PDict blog),
       (get_latest_blog_topic,
        \<lambda>blog. PDict [(lit ''topic'', dict_get_default blog (lit ''topic'') (PList []))]),
       (get_latest_blog_social,
        \<lambda>blog. PDict
          [(lit ''twitter_post'', dict_get_default blog (lit ''twitter_post'') (PList [])),
           (lit ''linkedin_post'', dict_get_default blog (lit ''linkedin_post'') (PList [])),
           (lit ''reddit_post'', dict_get_default blog (lit ''reddit_post'') (PList []))])}.
     handler db args st =
       (if \<not> truthy (args (lit ''user_id'')) \<or> \<not> truthy (args (lit ''company_url''))
        then (Inr (error_body ''Missing user_id or company_url parameters'', 400), st)
        else
          (case get_blog_by_user_and_company db (committed st)
                  (or_empty (args (lit ''user_id''))) (or_empty (args (lit ''company_url''))) of
             None \<Rightarrow>
               (Inr (error_body ''Blog not found'', 404),
                \<lparr>committed = committed st, ops = ops st @ [Commit, Close]\<rparr>)
           | Some blog \<Rightarrow>
               if to_dict db blog = []
               then (Inr (error_body ''Blog not found'', 404),
                     \<lparr>committed = committed st, ops = ops st @ [Commit, Close]\<rparr>)
               else (Inr (body (to_dict db blog), 200),
                     \<lparr>committed = committed st, ops = ops st @ [Commit, Close]\<rparr>)))"
  by (simp add: get_latest_blog_full_def get_latest_blog_topic_def get_latest_blog_social_def
      latest_blog_eq)


theorem latest_blog_endpoints_witness:
  "fst (get_latest_blog_topic memory_db known_args done_store)
     = Inr (PDict [(lit ''topic'', blog_topic done_blog)], 200)
   \<and> fst (get_latest_blog_full memory_db unknown_args done_store)
     = Inr (error_body ''Blog not found'', 404)
   \<and> get_latest_blog_social memory_db partial_args done_store
     = (Inr (error_body ''Missing user_id or company_url parameters'', 400), done_store)"
proof -
  have k: "truthy (known_args (lit ''user_id''))" "truthy (known_args (lit ''company_url''))"
    "or_empty (known_args (lit ''user_id'')) = lit ''u1''"
    "or_empty (known_args (lit ''company_url'')) = lit ''acme.example''"
    by (simp_all add: known_args_def truthy_def or_empty_def lit_def)
  have kl: "get_blog_by_user_and_company memory_db (committed done_store) (lit ''u1'')
              (lit ''acme.example'') = Some done_blog"
    by (simp add: memory_db_def memory_lookup_def done_store_def done_blog_def)
  have kd: "to_dict memory_db done_blog \<noteq> []"
    "dict_get_default (to_dict memory_db done_blog) (lit ''topic'') (PList []) = blog_topic done_blog"
    by (simp_all add: memory_db_def memory_to_dict_def dict_get_default_def lit_def)
  have 1: "fst (get_latest_blog_topic memory_db known_args done_store)
             = Inr (PDict [(lit ''topic'', blog_topic done_blog)], 200)"
    using latest_blog_endpoints [of memory_db known_args done_store]
    by (simp add: k kl kd)
  have u: "truthy (unknown_args (lit ''user_id''))" "truthy (unknown_args (lit ''company_url''))"
    "or_empty (unknown_args (lit ''user_id'')) = lit ''u2''"
    "or_empty (unknown_args (lit ''company_url'')) = lit ''acme.example''"
    by (simp_all add: unknown_args_def truthy_def or_empty_def lit_def)
  have ul: "get_blog_by_user_and_company memory_db (committed done_store) (lit ''u2'')
              (lit ''acme.example'') = None"
    by (simp add: memory_db_def memory_lookup_def done_store_def done_blog_def lit_def)
  have 2: "fst (get_latest_blog_full memory_db unknown_args done_store)
             = Inr (error_body ''Blog not found'', 404)"
    using latest_blog_endpoints [of memory_db unknown_args done_store]
    by (simp add: u ul)
  have p: "\<not> truthy (partial_args (lit ''company_url''))"
    by (simp add: partial_args_def truthy_def lit_def)
  have 3: "get_latest_blog_social memory_db partial_args done_store
             = (Inr (error_body ''Missing user_id or company_url parameters'', 400), done_store)"
    using latest_blog_endpoints [of memory_db partial_args done_store]
    by (simp add: p)
  from 1 2 3 show ?thesis by (intro conjI)
qed

end
